theory Spec2Isabelle
  imports Main "HOL-Library.Word" "HOL-Library.Char_ord" "HOL-Library.List_Lexorder"
begin

unbundle bit_operations_syntax

section \<open>The table generator \<^verbatim>\<open>makemysqldata.go\<close>\<close>

subsection \<open>Data\<close>

text \<open>
  A Go \<^verbatim>\<open>string\<close> is a sequence of bytes: \<^typ>\<open>string\<close>. A \<^verbatim>\<open>uint16\<close> weight is a
  \<^typ>\<open>16 word\<close>, a \<^verbatim>\<open>byte\<close> an \<^typ>\<open>8 word\<close>. A \<^verbatim>\<open>rune\<close> (\<^verbatim>\<open>int32\<close>) is an \<^typ>\<open>int\<close>: the only
  runes built here come out of \<^verbatim>\<open>strconv.ParseInt(_, 16, 32)\<close>, which refuses every value
  outside the 32-bit range, so no conversion wraps.

  \<^verbatim>\<open>type tailoringWeights map[string][]uint16\<close> is an association list: the order of
  the list is the order in which \<^verbatim>\<open>range\<close> visits the map, which Go leaves unspecified, so
  a statement about a Go map is one about every list with distinct keys. Lookup is
  \<^const>\<open>map_of\<close>. The \<^verbatim>\<open>nil\<close> map and the empty map are both \<^term>\<open>[]\<close>: the code only
  takes \<^verbatim>\<open>len\<close> of, reads and ranges over these maps, and those agree on both.
\<close>

type_synonym weight = "16 word"
type_synonym byte = "8 word"
type_synonym rune = int
type_synonym tailoringWeights = "(string \<times> weight list) list"

text \<open>\<^verbatim>\<open>uca.WeightPatch{Codepoint: rune(cp), Patch: val}\<close>\<close>

record WeightPatch =
  Codepoint :: rune
  Patch :: "weight list"

text \<open>
  The panics of the generator. Each one ends the process before any file is written,
  so a run that panics has no output.
\<close>

datatype error =
    SliceBoundsOutOfRange
  | ParseIntFailed
  | NilPointerDereference
  | InvalidUCAVersion
  | UnexpectedUCAVersion
  | UnknownLevelsForCompare string

subsection \<open>\<^verbatim>\<open>strconv.ParseInt(s, 16, 32)\<close>\<close>

text \<open>
  The Go standard library's parser, at the base and bit size \<^verbatim>\<open>diffMaps\<close> calls it with.
  \<^verbatim>\<open>lower(c)\<close> is \<^verbatim>\<open>c | ('x' - 'X')\<close>. A digit is \<^verbatim>\<open>'0'..'9'\<close>, or a letter whose lower-case
  form is \<^verbatim>\<open>'a'..'z'\<close>, and must be below the base. Base 16 is given explicitly, so neither
  a \<^verbatim>\<open>0x\<close> prefix nor underscores are accepted.
\<close>

datatype NumError = ErrSyntax | ErrRange

definition lower :: "byte \<Rightarrow> byte" where
  "lower c = c OR 0x20"

definition digit_of :: "char \<Rightarrow> nat option" where
  "digit_of ch =
     (let c = (of_char ch :: byte) in
      if 0x30 \<le> c \<and> c \<le> 0x39 then Some (unat (c - 0x30))
      else if 0x61 \<le> lower c \<and> lower c \<le> 0x7A then Some (unat (lower c - 0x61 + 10))
      else None)"

text \<open>
  The loop of \<^verbatim>\<open>ParseUint\<close> with \<^verbatim>\<open>base = 16\<close> and \<^verbatim>\<open>bitSize = 32\<close>:
  \<^verbatim>\<open>cutoff = maxUint64/16 + 1 = 2^60\<close> and \<^verbatim>\<open>maxVal = 2^32 - 1\<close>. The accumulator never
  exceeds \<^verbatim>\<open>maxVal\<close>, so the 64-bit product and sum do not wrap and \<^typ>\<open>nat\<close> arithmetic
  is exact.
\<close>

fun ParseUint_loop :: "nat \<Rightarrow> string \<Rightarrow> NumError + nat" where
  "ParseUint_loop n [] = Inr n"
| "ParseUint_loop n (ch # cs) =
     (case digit_of ch of
        None \<Rightarrow> Inl ErrSyntax
      | Some d \<Rightarrow>
          if d \<ge> 16 then Inl ErrSyntax
          else if n \<ge> 1152921504606846976 then Inl ErrRange
          else let n1 = n * 16 + d in
               if n1 < n \<or> n1 > 4294967295 then Inl ErrRange
               else ParseUint_loop n1 cs)"

definition ParseUint :: "string \<Rightarrow> NumError + nat" where
  "ParseUint s = (if s = [] then Inl ErrSyntax else ParseUint_loop 0 s)"

text \<open>
  \<^verbatim>\<open>ParseInt\<close> takes one leading sign off, parses the rest unsigned, and accepts the
  magnitude below \<^verbatim>\<open>cutoff = 2^31\<close> (up to \<^verbatim>\<open>2^31\<close> itself after a minus sign). Every
  error of \<^verbatim>\<open>ParseUint\<close> is an error of \<^verbatim>\<open>ParseInt\<close>: after a range error the magnitude
  is \<^verbatim>\<open>maxVal\<close>, above the cutoff.
\<close>

definition ParseInt :: "string \<Rightarrow> NumError + int" where
  "ParseInt s =
     (if s = [] then Inl ErrSyntax
      else
        let neg = (hd s = CHR ''-'');
            s1 = (if hd s = CHR ''+'' \<or> hd s = CHR ''-'' then tl s else s)
        in case ParseUint s1 of
             Inl e \<Rightarrow> Inl e
           | Inr un \<Rightarrow>
               if \<not> neg \<and> un \<ge> 2147483648 then Inl ErrRange
               else if neg \<and> un > 2147483648 then Inl ErrRange
               else Inr (if neg then - int un else int un))"

subsection \<open>\<^verbatim>\<open>diffMaps\<close>\<close>

text \<open>
  The inner loop \<^verbatim>\<open>for i, arr := range val { if orgWeights[key][i] != arr ... break }\<close>.
  It runs only when the two vectors have the same length, so every index it reads is
  in range.
\<close>

definition differs_at_some_index :: "weight list \<Rightarrow> weight list \<Rightarrow> bool" where
  "differs_at_some_index orgVal val = list_ex (\<lambda>i. orgVal ! i \<noteq> val ! i) [0..<length val]"

text \<open>The condition under which the first loop stores \<^verbatim>\<open>diffMap[key] = val\<close>.\<close>

definition in_diffMap :: "tailoringWeights \<Rightarrow> string \<times> weight list \<Rightarrow> bool" where
  "in_diffMap orgWeights kv =
     (case map_of orgWeights (fst kv) of
        None \<Rightarrow> True
      | Some orgVal \<Rightarrow>
          if length orgVal \<noteq> length (snd kv) then True
          else differs_at_some_index orgVal (snd kv))"

text \<open>
  The body of the second loop: \<^verbatim>\<open>key[2:]\<close> panics on a key shorter than two bytes, and
  a key whose rest does not parse panics with the parser's error.
\<close>

definition key_codepoint :: "string \<Rightarrow> error + rune" where
  "key_codepoint key =
     (if length key < 2 then Inl SliceBoundsOutOfRange
      else case ParseInt (drop 2 key) of
             Inl e \<Rightarrow> Inl ParseIntFailed
           | Inr cp \<Rightarrow> Inr cp)"

definition patch_of :: "string \<times> weight list \<Rightarrow> error + WeightPatch" where
  "patch_of kv =
     (case key_codepoint (fst kv) of
        Inl e \<Rightarrow> Inl e
      | Inr cp \<Rightarrow> Inr \<lparr>Codepoint = cp, Patch = snd kv\<rparr>)"

fun patches_of :: "tailoringWeights \<Rightarrow> error + WeightPatch list" where
  "patches_of [] = Inr []"
| "patches_of (kv # kvs) =
     (case patch_of kv of
        Inl e \<Rightarrow> Inl e
      | Inr p \<Rightarrow> (case patches_of kvs of Inl e \<Rightarrow> Inl e | Inr ps \<Rightarrow> Inr (p # ps)))"

text \<open>
  \<^verbatim>\<open>sort.Slice\<close> orders the patches by \<^verbatim>\<open>Codepoint\<close>. It is not a stable sort, and the
  patches reach it in map order; \<^const>\<open>sort_key\<close> is one sort among those it may perform,
  and the only one when the codepoints are distinct.
\<close>

definition diffMaps :: "tailoringWeights \<Rightarrow> tailoringWeights \<Rightarrow> error + WeightPatch list" where
  "diffMaps orgWeights modWeights =
     (if length modWeights = 0 then Inr []
      else case patches_of (filter (in_diffMap orgWeights) modWeights) of
             Inl e \<Rightarrow> Inl e
           | Inr diff \<Rightarrow> Inr (sort_key Codepoint diff))"

subsection \<open>Collation metadata\<close>

text \<open>
  The generator reads \<^verbatim>\<open>uca.Contraction\<close> through its fields \<^verbatim>\<open>Path\<close>, \<^verbatim>\<open>Weights\<close> and
  \<^verbatim>\<open>Contextual\<close>, and \<^verbatim>\<open>charset.UnicodeMapping\<close> through \<^verbatim>\<open>From\<close>, \<^verbatim>\<open>To\<close> and \<^verbatim>\<open>Range\<close>; it
  only prints them. A reorder range is a \<^verbatim>\<open>[4]uint16\<close>.
\<close>

record Contraction =
  Path :: "rune list"
  Weights_ctr :: "weight list"
  Contextual :: bool

record UnicodeMapping =
  From_ :: nat
  To_ :: nat
  Range_ :: "byte list"

type_synonym reorder_range = "weight \<times> weight \<times> weight \<times> weight"

record collationFlags =
  Binary :: bool
  ASCII :: bool
  Default :: bool

text \<open>
  \<^verbatim>\<open>type collationMetadata struct\<close>. A slice that the code tests against \<^verbatim>\<open>nil\<close>, or
  prints whole, is an option (\<^term>\<open>None\<close> is \<^verbatim>\<open>nil\<close>); a slice it only measures and
  ranges over is a list.
\<close>

record collationMetadata =
  Name :: string
  Charset :: string
  Flags :: collationFlags
  CollationImpl :: string
  Number :: nat
  CType :: "byte list option"
  ToLower :: "byte list option"
  ToUpper :: "byte list option"
  SortOrder :: "byte list option"
  TabToUni :: "weight list option"
  TabFromUni :: "UnicodeMapping list option"
  UCAVersion :: int
  Weights :: tailoringWeights
  Contractions :: "Contraction list"
  Reorder :: "reorder_range list"
  UpperCaseFirst :: bool

subsection \<open>What the generator writes\<close>

text \<open>
  The generator prints Go source into two buffers. The model keeps the structure of
  that text: one \<open>table_decl\<close> for each \<^verbatim>\<open>var name = ...{ ... }\<close> written to \<^verbatim>\<open>tables\<close>, and
  one \<open>registration\<close> for each \<^verbatim>\<open>register(&T{ ... }, default)\<close> written to \<^verbatim>\<open>init\<close>, with one
  \<open>field\<close> for each \<^verbatim>\<open>key: value,\<close> line in the order printed. A field that holds Go
  source (a table's name, an expression) holds it as the string printed.
\<close>

datatype table_decl =
    WeightPatchTable string "WeightPatch list"
  | ContractionTable string "Contraction list"
  | ReorderTable string "reorder_range list"
  | ByteTable string "byte list"
  | Uint16Table string "weight list"
  | UnicodeMappingTable string "UnicodeMapping list"
  | BlankLine

datatype simple_field = S_ctype string | S_tolower string | S_toupper string | S_sort string

datatype charset8_field = C_Name string | C_ToUnicode string | C_FromUnicode string

datatype field =
    F_name string
  | F_id nat
  | F_charset string
  | F_charset_latin1
  | F_charset_8bit "charset8_field list"
  | F_weights string
  | F_tailoring string
  | F_contractions string
  | F_reorder string
  | F_maxCodepoint nat
  | F_levelsForCompare nat
  | F_upperCaseFirst
  | F_simpletables "simple_field list"
  | F_unicase string
  | F_sort string

record registration =
  reg_type :: string
  reg_fields :: "field list"
  reg_default :: bool

text \<open>
  \<^verbatim>\<open>dedupTable\<close> keys its map by \<^verbatim>\<open>fmt.Sprintf("%#v", val)\<close>, the Go-syntax rendering of the
  value: it names the value's type and spells the value out (a \<^verbatim>\<open>nil\<close> slice differently
  from an empty one), so two keys are equal exactly when the types and the values are.
  The key is modelled as the typed value itself.
\<close>

datatype table_val =
    V_bytes "byte list option"
  | V_uint16s "weight list option"
  | V_mappings "UnicodeMapping list option"
  | V_patches "WeightPatch list"
  | V_contractions "Contraction list"
  | V_reorders "reorder_range list"

type_synonym seen = "(table_val \<times> string) list"

record gen =
  tables :: "table_decl list"
  init :: "registration list"
  seenTables :: seen

text \<open>The two command-line flags the writers read.\<close>

record flags =
  Print8BitData :: bool
  CleanupGlobalAllocations :: bool

text \<open>The three globals \<^verbatim>\<open>baseWeightsUca400\<close>, \<^verbatim>\<open>baseWeightsUca520\<close>, \<^verbatim>\<open>baseWeightsUca900\<close>.\<close>

record bases =
  baseWeightsUca400 :: tailoringWeights
  baseWeightsUca520 :: tailoringWeights
  baseWeightsUca900 :: tailoringWeights

subsection \<open>Formatting and string helpers\<close>

text \<open>\<^verbatim>\<open>%d\<close> of an \<^verbatim>\<open>int\<close>: decimal digits, with a minus sign below zero.\<close>

fun fmt_nat :: "nat \<Rightarrow> string" where
  "fmt_nat n =
     (if n < 10 then [''0123456789'' ! n]
      else fmt_nat (n div 10) @ [''0123456789'' ! (n mod 10)])"

declare fmt_nat.simps [simp del]

definition fmt_d :: "int \<Rightarrow> string" where
  "fmt_d i = (if i < 0 then CHR ''-'' # fmt_nat (nat (- i)) else fmt_nat (nat i))"

text \<open>\<^verbatim>\<open>strings.HasSuffix(s, suffix)\<close>\<close>

definition HasSuffix :: "string \<Rightarrow> string \<Rightarrow> bool" where
  "HasSuffix s suffix =
     (length s \<ge> length suffix \<and> drop (length s - length suffix) s = suffix)"

subsection \<open>\<^verbatim>\<open>dedupTable\<close> and the table printers\<close>

definition dedupTable :: "string \<Rightarrow> string \<Rightarrow> table_val \<Rightarrow> seen \<Rightarrow> string \<times> bool \<times> seen" where
  "dedupTable name coll val dedup =
     (case map_of dedup val of
        Some exist \<Rightarrow> (exist, True, dedup)
      | None \<Rightarrow>
          let varname = name @ ''_'' @ coll
          in (varname, False, (val, varname) # dedup))"

text \<open>
  Each printer asks \<^verbatim>\<open>dedupTable\<close> for the table's name and prints the table unless an
  equal one was printed before. Ranging over a \<^verbatim>\<open>nil\<close> slice prints no element.
\<close>

definition print_table :: "string \<Rightarrow> string \<Rightarrow> table_val \<Rightarrow> (string \<Rightarrow> table_decl) \<Rightarrow> gen
    \<Rightarrow> string \<times> gen" where
  "print_table name coll val decl st =
     (case dedupTable name coll val (seenTables st) of
        (tableName, dedup, seen') \<Rightarrow>
          (tableName,
           st\<lparr>seenTables := seen',
              tables := (if \<not> dedup then tables st @ [decl tableName] else tables st)\<rparr>))"

definition slice_elems :: "'a list option \<Rightarrow> 'a list" where
  "slice_elems a = (case a of None \<Rightarrow> [] | Some xs \<Rightarrow> xs)"

definition printByteSlice :: "string \<Rightarrow> string \<Rightarrow> byte list option \<Rightarrow> gen \<Rightarrow> string \<times> gen" where
  "printByteSlice name coll a st =
     print_table name coll (V_bytes a) (\<lambda>n. ByteTable n (slice_elems a)) st"

definition printUnsignedSlice :: "string \<Rightarrow> string \<Rightarrow> weight list option \<Rightarrow> gen \<Rightarrow> string \<times> gen" where
  "printUnsignedSlice name coll a st =
     print_table name coll (V_uint16s a) (\<lambda>n. Uint16Table n (slice_elems a)) st"

definition printUnicodeMappings :: "string \<Rightarrow> string \<Rightarrow> UnicodeMapping list option \<Rightarrow> gen
    \<Rightarrow> string \<times> gen" where
  "printUnicodeMappings name coll mappings st =
     print_table name coll (V_mappings mappings)
       (\<lambda>n. UnicodeMappingTable n (slice_elems mappings)) st"

subsection \<open>\<^verbatim>\<open>writeWeightPatches\<close>, \<^verbatim>\<open>writeContractions\<close>, \<^verbatim>\<open>writeReorders\<close>\<close>

definition writeWeightPatches :: "bases \<Rightarrow> collationMetadata \<Rightarrow> gen \<Rightarrow> error + string \<times> gen" where
  "writeWeightPatches b meta st =
     (case (if UCAVersion meta = 400 then Inr (baseWeightsUca400 b)
            else if UCAVersion meta = 520 then Inr (baseWeightsUca520 b)
            else if UCAVersion meta = 900 then Inr (baseWeightsUca900 b)
            else Inl InvalidUCAVersion) of
        Inl e \<Rightarrow> Inl e
      | Inr baseWeights \<Rightarrow>
          (case diffMaps baseWeights (Weights meta) of
             Inl e \<Rightarrow> Inl e
           | Inr diff \<Rightarrow>
               if length diff > 0
               then Inr (print_table ''weightTailoring'' (Name meta) (V_patches diff)
                           (\<lambda>n. WeightPatchTable n diff) st)
               else Inr ('''', st)))"

text \<open>
  Before a contraction is printed its weights are cut at the first all-zero triple
  that is not the last one:
  \<^verbatim>\<open>for i := 0; i < len(w)-3; i += 3 { if w[i] == 0 && w[i+1] == 0 && w[i+2] == 0 { w = w[:i]; break } }\<close>.
  \<^verbatim>\<open>i < len(w)-3\<close> on Go's signed \<^verbatim>\<open>int\<close> is \<^verbatim>\<open>i + 3 < len(w)\<close>.
\<close>

function trim_zero_triple :: "nat \<Rightarrow> weight list \<Rightarrow> weight list" where
  "trim_zero_triple i w =
     (if i + 3 < length w
      then if w ! i = 0 \<and> w ! (i + 1) = 0 \<and> w ! (i + 2) = 0 then take i w
           else trim_zero_triple (i + 3) w
      else w)"
  by pat_completeness auto
termination
  by (relation "measure (\<lambda>(i, w). length w - i)") auto

declare trim_zero_triple.simps [simp del]

definition printed_contraction :: "Contraction \<Rightarrow> Contraction" where
  "printed_contraction ctr = ctr\<lparr>Weights_ctr := trim_zero_triple 0 (Weights_ctr ctr)\<rparr>"

definition writeContractions :: "collationMetadata \<Rightarrow> gen \<Rightarrow> string \<times> gen" where
  "writeContractions meta st =
     (if length (Contractions meta) > 0
      then print_table ''contractions'' (Name meta) (V_contractions (Contractions meta))
             (\<lambda>n. ContractionTable n (map printed_contraction (Contractions meta))) st
      else ('''', st))"

definition writeReorders :: "collationMetadata \<Rightarrow> gen \<Rightarrow> string \<times> gen" where
  "writeReorders meta st =
     (if length (Reorder meta) > 0
      then print_table ''reorder'' (Name meta) (V_reorders (Reorder meta))
             (\<lambda>n. ReorderTable n (Reorder meta)) st
      else ('''', st))"

text \<open>A field printed only when its table name is not the empty string.\<close>

definition opt_field :: "(string \<Rightarrow> 'f) \<Rightarrow> string \<Rightarrow> 'f list" where
  "opt_field f tableName = (if tableName \<noteq> '''' then [f tableName] else [])"

definition add_registration :: "registration \<Rightarrow> gen \<Rightarrow> gen" where
  "add_registration r st = st\<lparr>init := init st @ [r]\<rparr>"

subsection \<open>\<^verbatim>\<open>writeUcaLegacy\<close>\<close>

definition writeUcaLegacy :: "bases \<Rightarrow> collationMetadata \<Rightarrow> gen \<Rightarrow> error + gen" where
  "writeUcaLegacy b meta st =
     (case writeWeightPatches b meta st of
        Inl e \<Rightarrow> Inl e
      | Inr (tableWeightPatches, st1) \<Rightarrow>
          (case writeContractions meta st1 of
             (tableContractions, st2) \<Rightarrow>
               (case (if UCAVersion meta = 400 then Inr [F_maxCodepoint 0xFFFF]
                      else if UCAVersion meta = 520 then Inr [F_maxCodepoint 0x10FFFF]
                      else Inl InvalidUCAVersion) of
                  Inl e \<Rightarrow> Inl e
                | Inr maxCodepoint \<Rightarrow>
                    Inr (add_registration
                          \<lparr>reg_type = ''Collation_uca_legacy'',
                           reg_fields =
                             [F_name (Name meta), F_id (Number meta), F_charset (Charset meta),
                              F_weights (''uca.WeightTable_uca'' @ fmt_d (UCAVersion meta))]
                             @ opt_field F_tailoring tableWeightPatches
                             @ opt_field F_contractions tableContractions
                             @ maxCodepoint,
                           reg_default = Default (Flags meta)\<rparr>
                          st2))))"

subsection \<open>\<^verbatim>\<open>writeUca900\<close>\<close>

text \<open>
  The first \<^verbatim>\<open>switch\<close>: the table of weights, and the metadata with the fields the
  Chinese and Japanese cases set to \<^verbatim>\<open>nil\<close>.
\<close>

definition uca900_table :: "collationMetadata \<Rightarrow> string \<times> collationMetadata" where
  "uca900_table meta =
     (if Name meta = ''utf8mb4_zh_0900_as_cs''
      then (''uca.WeightTable_uca900_zh'', meta\<lparr>Weights := [], Reorder := []\<rparr>)
      else if Name meta = ''utf8mb4_ja_0900_as_cs'' \<or> Name meta = ''utf8mb4_ja_0900_as_cs_ks''
      then (''uca.WeightTable_uca900_ja'', meta\<lparr>Weights := []\<rparr>)
      else (''uca.WeightTable_uca900'', meta))"

text \<open>The second \<^verbatim>\<open>switch\<close>, in the order of its cases.\<close>

definition levelsForCompare :: "string \<Rightarrow> error + nat" where
  "levelsForCompare name =
     (if HasSuffix name ''_ai_ci'' then Inr 1
      else if HasSuffix name ''_as_ci'' then Inr 2
      else if HasSuffix name ''_as_cs'' then Inr 3
      else if HasSuffix name ''_as_cs_ks'' then Inr 4
      else Inl (UnknownLevelsForCompare name))"

definition writeUca900 :: "bases \<Rightarrow> collationMetadata \<Rightarrow> gen \<Rightarrow> error + gen" where
  "writeUca900 b meta0 st =
     (if UCAVersion meta0 \<noteq> 900 then Inl UnexpectedUCAVersion
      else case uca900_table meta0 of
        (tableWeights, meta) \<Rightarrow>
          (case writeWeightPatches b meta st of
             Inl e \<Rightarrow> Inl e
           | Inr (tableWeightPatches, st1) \<Rightarrow>
               (case writeContractions meta st1 of
                  (tableContractions, st2) \<Rightarrow>
                    (case writeReorders meta st2 of
                       (tableReorder, st3) \<Rightarrow>
                         (case levelsForCompare (Name meta) of
                            Inl e \<Rightarrow> Inl e
                          | Inr levels \<Rightarrow>
                              Inr (add_registration
                                    \<lparr>reg_type = ''Collation_utf8mb4_uca_0900'',
                                     reg_fields =
                                       [F_name (Name meta), F_id (Number meta),
                                        F_levelsForCompare levels, F_weights tableWeights]
                                       @ opt_field F_tailoring tableWeightPatches
                                       @ opt_field F_contractions tableContractions
                                       @ opt_field F_reorder tableReorder
                                       @ (if UpperCaseFirst meta then [F_upperCaseFirst] else []),
                                     reg_default = Default (Flags meta)\<rparr>
                                    st3))))))"

subsection \<open>\<^verbatim>\<open>write8bit\<close>, \<^verbatim>\<open>writeUnicode\<close>, \<^verbatim>\<open>writeMultibyte\<close>\<close>

definition write8bit :: "flags \<Rightarrow> collationMetadata \<Rightarrow> gen \<Rightarrow> gen" where
  "write8bit fl meta st =
     (case (if Print8BitData fl
            then (case printByteSlice ''ctype'' (Name meta) (CType meta) st of
                    (tableCtype, s1) \<Rightarrow>
                      (case printByteSlice ''tolower'' (Name meta) (ToLower meta) s1 of
                         (tableToLower, s2) \<Rightarrow>
                           (case printByteSlice ''toupper'' (Name meta) (ToUpper meta) s2 of
                              (tableToUpper, s3) \<Rightarrow>
                                ([S_ctype tableCtype, S_tolower tableToLower,
                                  S_toupper tableToUpper], s3))))
            else ([], st)) of
        (caseTables, st1) \<Rightarrow>
          (case (if SortOrder meta \<noteq> None
                 then printByteSlice ''sortorder'' (Name meta) (SortOrder meta) st1
                 else ('''', st1)) of
             (tableSortOrder, st2) \<Rightarrow>
               (case (if Charset meta \<noteq> ''latin1'' \<and> TabToUni meta \<noteq> None
                      then printUnsignedSlice ''tounicode'' (Name meta) (TabToUni meta) st2
                      else ('''', st2)) of
                  (tableToUnicode, st3) \<Rightarrow>
                    (case (if Charset meta \<noteq> ''latin1'' \<and> TabFromUni meta \<noteq> None
                           then printUnicodeMappings ''fromunicode'' (Name meta) (TabFromUni meta) st3
                           else ('''', st3)) of
                       (tableFromUnicode, st4) \<Rightarrow>
                         add_registration
                           \<lparr>reg_type = (if Binary (Flags meta) then ''Collation_8bit_bin''
                                        else ''Collation_8bit_simple_ci''),
                            reg_fields =
                              [F_id (Number meta), F_name (Name meta),
                               F_simpletables (caseTables @ opt_field S_sort tableSortOrder),
                               (if Charset meta = ''latin1'' then F_charset_latin1
                                else F_charset_8bit
                                       ([C_Name (Charset meta)]
                                        @ opt_field C_ToUnicode tableToUnicode
                                        @ opt_field C_FromUnicode tableFromUnicode))],
                            reg_default = Default (Flags meta)\<rparr>
                           (st4\<lparr>tables := tables st4 @ [BlankLine]\<rparr>)))))"

definition writeUnicode :: "collationMetadata \<Rightarrow> gen \<Rightarrow> gen" where
  "writeUnicode meta st =
     add_registration
       \<lparr>reg_type = (if Binary (Flags meta) then ''Collation_unicode_bin''
                    else ''Collation_unicode_general_ci''),
        reg_fields =
          [F_id (Number meta), F_name (Name meta)]
          @ (if \<not> Binary (Flags meta) then [F_unicase ''unicaseInfo_default''] else [])
          @ [F_charset (Charset meta)],
        reg_default = Default (Flags meta)\<rparr>
       st"

definition writeMultibyte :: "collationMetadata \<Rightarrow> gen \<Rightarrow> gen" where
  "writeMultibyte meta st =
     (case (if SortOrder meta \<noteq> None
            then printByteSlice ''sortorder'' (Name meta) (SortOrder meta) st
            else ('''', st)) of
        (tableSortOrder, st1) \<Rightarrow>
          add_registration
            \<lparr>reg_type = ''Collation_multibyte'',
             reg_fields =
               [F_id (Number meta), F_name (Name meta)]
               @ opt_field F_sort tableSortOrder
               @ [F_charset (Charset meta)],
             reg_default = Default (Flags meta)\<rparr>
            st1)"

subsection \<open>\<^verbatim>\<open>main\<close>\<close>

definition findCollation :: "collationMetadata list \<Rightarrow> string \<Rightarrow> collationMetadata option" where
  "findCollation all name = find (\<lambda>meta. Name meta = name) all"

text \<open>\<^verbatim>\<open>findCollation(all, name).Weights\<close>: reading a field through \<^verbatim>\<open>nil\<close> panics.\<close>

definition base_weights :: "collationMetadata list \<Rightarrow> string \<Rightarrow> error + tailoringWeights" where
  "base_weights all name =
     (case findCollation all name of
        None \<Rightarrow> Inl NilPointerDereference
      | Some meta \<Rightarrow> Inr (Weights meta))"

text \<open>
  The state of the loop of \<^verbatim>\<open>main\<close>: the two buffers and the table names seen, and the
  list \<^verbatim>\<open>unsupported\<close>. (\<^verbatim>\<open>unsupportedByCharset\<close> only feeds the log line at the end.)
\<close>

record main_state =
  out :: gen
  unsupported :: "collationMetadata list"

text \<open>
  The \<^verbatim>\<open>switch\<close> in the loop, case by case in the order written. The two predicates
  \<^verbatim>\<open>charset.IsMultibyteByName\<close> and \<^verbatim>\<open>charset.IsUnicodeByName\<close> are parameters.
\<close>

definition main_step :: "flags \<Rightarrow> (string \<Rightarrow> bool) \<Rightarrow> (string \<Rightarrow> bool) \<Rightarrow> bases
    \<Rightarrow> collationMetadata \<Rightarrow> main_state \<Rightarrow> error + main_state" where
  "main_step fl IsMultibyteByName IsUnicodeByName b meta ms =
     (if Name meta = ''utf8mb4_0900_bin'' \<or> Name meta = ''binary'' then Inr ms
      else if Name meta = ''tis620_bin'' then Inr ms
      else if CollationImpl meta = ''any_uca'' \<or> CollationImpl meta = ''utf16_uca''
              \<or> CollationImpl meta = ''utf32_uca'' \<or> CollationImpl meta = ''ucs2_uca''
      then (case writeUcaLegacy b meta (out ms) of
              Inl e \<Rightarrow> Inl e | Inr st \<Rightarrow> Inr (ms\<lparr>out := st\<rparr>))
      else if CollationImpl meta = ''uca_900''
      then (case writeUca900 b meta (out ms) of
              Inl e \<Rightarrow> Inl e | Inr st \<Rightarrow> Inr (ms\<lparr>out := st\<rparr>))
      else if CollationImpl meta = ''8bit_bin'' \<or> CollationImpl meta = ''8bit_simple_ci''
      then Inr (ms\<lparr>out := write8bit fl meta (out ms)\<rparr>)
      else if Name meta = ''gb18030_unicode_520_ci''
      then (case writeUcaLegacy b meta (out ms) of
              Inl e \<Rightarrow> Inl e | Inr st \<Rightarrow> Inr (ms\<lparr>out := st\<rparr>))
      else if IsMultibyteByName (Charset meta)
      then Inr (ms\<lparr>out := writeMultibyte meta (out ms)\<rparr>)
      else if HasSuffix (Name meta) ''_bin'' \<and> IsUnicodeByName (Charset meta)
      then Inr (ms\<lparr>out := writeUnicode meta (out ms)\<rparr>)
      else if HasSuffix (Name meta) ''_general_ci''
      then Inr (ms\<lparr>out := writeUnicode meta (out ms)\<rparr>)
      else Inr (ms\<lparr>unsupported := unsupported ms @ [meta]\<rparr>))"

fun main_loop :: "flags \<Rightarrow> (string \<Rightarrow> bool) \<Rightarrow> (string \<Rightarrow> bool) \<Rightarrow> bases
    \<Rightarrow> collationMetadata list \<Rightarrow> main_state \<Rightarrow> error + main_state" where
  "main_loop fl mb uni b [] ms = Inr ms"
| "main_loop fl mb uni b (meta # metas) ms =
     (case main_step fl mb uni b meta ms of
        Inl e \<Rightarrow> Inl e
      | Inr ms' \<Rightarrow> main_loop fl mb uni b metas ms')"

text \<open>
  The generated file, as far as it depends on the metadata: the tables, the entries of
  \<^verbatim>\<open>var collationsUnsupportedByName = map[string]ID{ name: number, ... }\<close>, the body of
  \<^verbatim>\<open>func init()\<close>, and the \<^verbatim>\<open>name = nil\<close> lines that \<^verbatim>\<open>-cleanup-allocs\<close> adds, sorted.
  The argument \<open>allMetadata\<close> is what \<^verbatim>\<open>loadMysqlMetadata\<close> returned. Formatting the
  text with \<^verbatim>\<open>go/format\<close>, writing the file and the log lines are left out.
\<close>

record generated =
  gen_tables :: "table_decl list"
  collationsUnsupportedByName :: "(string \<times> nat) list"
  gen_init :: "registration list"
  gen_cleanup :: "string list"

definition main :: "flags \<Rightarrow> (string \<Rightarrow> bool) \<Rightarrow> (string \<Rightarrow> bool) \<Rightarrow> collationMetadata list
    \<Rightarrow> error + generated" where
  "main fl IsMultibyteByName IsUnicodeByName allMetadata =
     (case base_weights allMetadata ''utf8mb4_unicode_ci'' of
        Inl e \<Rightarrow> Inl e
      | Inr b400 \<Rightarrow>
     (case base_weights allMetadata ''utf8mb4_unicode_520_ci'' of
        Inl e \<Rightarrow> Inl e
      | Inr b520 \<Rightarrow>
     (case base_weights allMetadata ''utf8mb4_0900_ai_ci'' of
        Inl e \<Rightarrow> Inl e
      | Inr b900 \<Rightarrow>
     (case main_loop fl IsMultibyteByName IsUnicodeByName
             \<lparr>baseWeightsUca400 = b400, baseWeightsUca520 = b520, baseWeightsUca900 = b900\<rparr>
             allMetadata
             \<lparr>out = \<lparr>tables = [], init = [], seenTables = []\<rparr>, unsupported = []\<rparr> of
        Inl e \<Rightarrow> Inl e
      | Inr ms \<Rightarrow>
          Inr \<lparr>gen_tables = tables (out ms),
               collationsUnsupportedByName = map (\<lambda>meta. (Name meta, Number meta)) (unsupported ms),
               gen_init = init (out ms),
               gen_cleanup = (if CleanupGlobalAllocations fl
                              then sort (map snd (seenTables (out ms))) else [])\<rparr>))))"

subsection \<open>Reading a registration\<close>

text \<open>The values a registration gives to one key, in the order printed.\<close>

definition names_of :: "registration \<Rightarrow> string list" where
  "names_of r = [x. F_name x \<leftarrow> reg_fields r]"

definition levels_of :: "registration \<Rightarrow> nat list" where
  "levels_of r = [n. F_levelsForCompare n \<leftarrow> reg_fields r]"

definition weights_of :: "registration \<Rightarrow> string list" where
  "weights_of r = [w. F_weights w \<leftarrow> reg_fields r]"

definition tailorings_of :: "registration \<Rightarrow> string list" where
  "tailorings_of r = [t. F_tailoring t \<leftarrow> reg_fields r]"

definition reorders_of :: "registration \<Rightarrow> string list" where
  "reorders_of r = [t. F_reorder t \<leftarrow> reg_fields r]"

definition maxCodepoints_of :: "registration \<Rightarrow> nat list" where
  "maxCodepoints_of r = [c. F_maxCodepoint c \<leftarrow> reg_fields r]"

text \<open>
  Metadata as the JSON decoder leaves it when a file gives only the name, the character
  set, the implementation, the number and the UCA version: every other field has its zero
  value.
\<close>

definition metadata :: "string \<Rightarrow> string \<Rightarrow> string \<Rightarrow> nat \<Rightarrow> int \<Rightarrow> collationMetadata" where
  "metadata name cs impl num version =
     \<lparr>Name = name, Charset = cs,
      Flags = \<lparr>Binary = False, ASCII = False, Default = False\<rparr>,
      CollationImpl = impl, Number = num,
      CType = None, ToLower = None, ToUpper = None, SortOrder = None,
      TabToUni = None, TabFromUni = None,
      UCAVersion = version, Weights = [], Contractions = [], Reorder = [],
      UpperCaseFirst = False\<rparr>"

text \<open>
  A small metadata directory, in the order of the collation numbers: one collation that
  no case of the loop handles, \<^verbatim>\<open>tis620_bin\<close>, the three collations whose weights are the
  base tables, and the Chinese collation with a tailored weight and a reorder range.
\<close>

definition example_metadata :: "collationMetadata list" where
  "example_metadata =
     [metadata ''latin1_german2_ci'' ''latin1'' ''latin1_german2_ci'' 31 0,
      (metadata ''tis620_bin'' ''tis620'' ''8bit_bin'' 89 0)
        \<lparr>Flags := \<lparr>Binary = True, ASCII = False, Default = False\<rparr>\<rparr>,
      metadata ''utf8mb4_unicode_ci'' ''utf8mb4'' ''any_uca'' 224 400,
      metadata ''utf8mb4_unicode_520_ci'' ''utf8mb4'' ''any_uca'' 246 520,
      metadata ''utf8mb4_0900_ai_ci'' ''utf8mb4'' ''uca_900'' 255 900,
      (metadata ''utf8mb4_zh_0900_as_cs'' ''utf8mb4'' ''uca_900'' 308 900)
        \<lparr>Weights := [(''U+4E00'', [0x1C47, 0x0020, 0x0002])],
         Reorder := [(0x1C47, 0x54A3, 0x1C47, 0x54A3)]\<rparr>]"

definition example_flags :: flags where
  "example_flags = \<lparr>Print8BitData = False, CleanupGlobalAllocations = False\<rparr>"

section \<open>The weight-string engine, from the specification\<close>

text \<open>
  \<^verbatim>\<open>Collation.WeightString\<close> is called by \<^verbatim>\<open>golden_test.go\<close> and fed by the tables the
  generator writes, but neither it nor the contraction matcher it rests on is among the
  source files at hand. The definitions of this section follow the words of the
  specification (sections 3, 4 and 6) instead; what the specification leaves open is a
  parameter. A code point is a natural number. A weight vector gives the weights of one
  collation unit at each level (level 0 is the primary level), as the contract
  \<^verbatim>\<open>Lookup(codepoint, level) -> weight\<close> has it.
\<close>

type_synonym codepoint = nat
type_synonym weight_vector = "nat \<Rightarrow> weight list"

text \<open>
  Modelled from the spec: the \<^verbatim>\<open>Contraction\<close> entity, whose matcher is missing from the
  sources. "Ordered codepoint path, resulting weight vector, contextual flag (requires a
  specific following codepoint to apply)": the flag and the codepoint it asks for are
  one optional field.
\<close>

record contraction_rule =
  rule_path :: "codepoint list"
  rule_weights :: weight_vector
  rule_context :: "codepoint option"

text \<open>
  Modelled from the spec: the \<^verbatim>\<open>Reorder\<close> entity, whose application is missing from the
  sources. "Tuple (fromMin, fromMax, toMin, toMax) remapping a primary-weight subrange."
\<close>

record reorder_rule =
  fromMin :: weight
  fromMax :: weight
  toMin :: weight
  toMax :: weight

text \<open>
  Modelled from the spec: a weight-based collation (UCA legacy, UCA900, and the
  single-level families, which have one level and neither contractions nor reorder
  ranges), whose implementation is missing from the sources. It combines the Charset
  Codec, the Weight Table, the Tailoring Patch Set, the implicit-weight formula, the
  Contraction Table and the Reorder Table, and declares 1 to 4 comparison levels. The
  codec, the implicit-weight formula and the treatment of trailing spaces under PAD SPACE
  (the identity for a NO PAD collation) are functions the specification does not spell
  out.
\<close>

record engine =
  decode :: "byte list \<Rightarrow> codepoint list"
  pad_treatment :: "codepoint list \<Rightarrow> codepoint list"
  levels :: nat
  weight_table :: "codepoint \<Rightarrow> weight_vector option"
  patch_set :: "codepoint \<Rightarrow> weight_vector option"
  implicit_weight :: "codepoint \<Rightarrow> weight_vector"
  contraction_table :: "contraction_rule list"
  reorder_table :: "reorder_rule list"

text \<open>
  Modelled from the spec: the collation variants, whose implementations are missing from
  the sources. "Binary variants skip weight lookup entirely: comparison and key
  generation operate on raw decoded bytes"; every other variant is weight-based.
\<close>

datatype collation = RawBytes | Weighted engine

text \<open>
  Modelled from the spec: \<^verbatim>\<open>Lookup\<close> of section 4.2, missing from the sources. "A patch,
  if present for the collation, is consulted first; on miss, falls back to the shared
  table; on miss there, an implicit weight is computed from the codepoint value."
\<close>

definition Lookup :: "engine \<Rightarrow> codepoint \<Rightarrow> weight_vector" where
  "Lookup e cp =
     (case patch_set e cp of
        Some v \<Rightarrow> v
      | None \<Rightarrow> (case weight_table e cp of Some v \<Rightarrow> v | None \<Rightarrow> implicit_weight e cp))"

text \<open>
  Modelled from the spec: when a contraction matches at a scan position (section 4.3),
  missing from the sources. Its path starts there, and a context-sensitive rule requires
  "the lookahead codepoint" after the path "to satisfy the rule's context before firing".
\<close>

definition applies :: "contraction_rule \<Rightarrow> codepoint list \<Rightarrow> bool" where
  "applies r input =
     (rule_path r \<noteq> [] \<and> take (length (rule_path r)) input = rule_path r \<and>
      (case rule_context r of
         None \<Rightarrow> True
       | Some cp \<Rightarrow> (case drop (length (rule_path r)) input of [] \<Rightarrow> False | x # rest \<Rightarrow> x = cp)))"

text \<open>
  Modelled from the spec: the Contraction Matcher of section 4.3, missing from the
  sources. "At each scan position, attempts to match the longest registered contraction
  path starting there; among candidates, longer paths always win." One pass over the
  registered rules keeps the best candidate so far; of two candidates of the same length
  the one registered first is kept.
\<close>

fun longest_match :: "contraction_rule list \<Rightarrow> codepoint list \<Rightarrow> contraction_rule option" where
  "longest_match [] input = None"
| "longest_match (r # rs) input =
     (case longest_match rs input of
        None \<Rightarrow> if applies r input then Some r else None
      | Some best \<Rightarrow>
          if applies r input \<and> length (rule_path best) \<le> length (rule_path r) then Some r
          else Some best)"

text \<open>
  Modelled from the spec: the walk of section 4.5, missing from the sources. "Walks the
  decoded codepoint sequence left to right. At each position: attempt contraction match
  (longest-first); else resolve a single-codepoint weight vector via table+patch+implicit
  fallback." A matched rule consumes its path: the codepoint at the position and the rest
  of the path after it.
\<close>

fun scan :: "engine \<Rightarrow> codepoint list \<Rightarrow> weight_vector list" where
  "scan e [] = []"
| "scan e (x # xs) =
     (case longest_match (contraction_table e) (x # xs) of
        Some r \<Rightarrow> rule_weights r # scan e (drop (length (rule_path r) - 1) xs)
      | None \<Rightarrow> Lookup e x # scan e xs)"

text \<open>
  Modelled from the spec: the Reorder step of section 4.4, missing from the sources.
  "Remapping the primary-level weight if it falls inside a configured range": a weight
  inside the first range that holds it moves to the same place in the range's target.
\<close>

definition reorder_weight :: "reorder_rule list \<Rightarrow> weight \<Rightarrow> weight" where
  "reorder_weight rs w =
     (case find (\<lambda>r. fromMin r \<le> w \<and> w \<le> fromMax r) rs of
        None \<Rightarrow> w
      | Some r \<Rightarrow> toMin r + (w - fromMin r))"

text \<open>
  Modelled from the spec: the accumulation of section 4.5, missing from the sources.
  "Weights are accumulated level by level across the whole string (all primary weights
  first, then all secondary, then tertiary, then quaternary/case, per the number of
  comparison levels the collation declares)", with "reorder [applied] to the primary
  component".
\<close>

definition level_weights :: "engine \<Rightarrow> weight_vector list \<Rightarrow> nat \<Rightarrow> weight list" where
  "level_weights e units l =
     concat (map (\<lambda>v. if l = 0 then map (reorder_weight (reorder_table e)) (v 0) else v l) units)"

definition all_weights :: "engine \<Rightarrow> weight_vector list \<Rightarrow> weight list" where
  "all_weights e units = concat (map (level_weights e units) [0..<levels e])"

text \<open>
  Modelled from the spec: the bytes of a weight, missing from the sources. The key is
  "byte-comparable" and the weights are 16-bit: the high byte comes first.
\<close>

definition weight_bytes :: "weight \<Rightarrow> byte list" where
  "weight_bytes w = [ucast (drop_bit 8 w), ucast w]"

text \<open>
  Modelled from the spec: writing the key into the output buffer under a maximum output
  length, missing from the sources. "If a maximum output length is supplied, the output
  is cut at that many weight bytes (not input codepoints)", and "callers bound worst-case
  latency by supplying a maximum output length": the writer stops as soon as the buffer
  holds that many bytes, in the middle of a weight if need be.
\<close>

fun write_bounded :: "nat \<Rightarrow> weight list \<Rightarrow> byte list" where
  "write_bounded n [] = []"
| "write_bounded n (w # ws) =
     (if n = 0 then []
      else if n = 1 then [ucast (drop_bit 8 w)]
      else ucast (drop_bit 8 w) # ucast w # write_bounded (n - 2) ws)"

definition write_all :: "weight list \<Rightarrow> byte list" where
  "write_all ws = concat (map weight_bytes ws)"

text \<open>
  Modelled from the spec: \<^verbatim>\<open>Collation.WeightString(src: bytes, maxLen: integer|unbounded)\<close>
  of section 6, missing from the sources; \<^term>\<open>None\<close> is \<^verbatim>\<open>unbounded\<close>. The data flow of
  section 2: the codec decodes the bytes, the engine derives the weights, the key is
  written.
\<close>

definition WeightString :: "collation \<Rightarrow> byte list \<Rightarrow> nat option \<Rightarrow> byte list" where
  "WeightString c src maxLen =
     (case c of
        RawBytes \<Rightarrow> (case maxLen of None \<Rightarrow> src | Some n \<Rightarrow> take n src)
      | Weighted e \<Rightarrow>
          (let ws = all_weights e (scan e (pad_treatment e (decode e src)))
           in case maxLen of None \<Rightarrow> write_all ws | Some n \<Rightarrow> write_bounded n ws))"

text \<open>
  A collation for the examples: one level over bytes read as code points, every code
  point weighing itself, with contraction rules for \<^verbatim>\<open>c\<close> and \<^verbatim>\<open>ch\<close> registered in the
  given order.
\<close>

definition example_rule_c :: contraction_rule where
  "example_rule_c =
     \<lparr>rule_path = [0x63], rule_weights = (\<lambda>l. if l = 0 then [0x1000] else []),
      rule_context = None\<rparr>"

definition example_rule_ch :: contraction_rule where
  "example_rule_ch =
     \<lparr>rule_path = [0x63, 0x68], rule_weights = (\<lambda>l. if l = 0 then [0x2000] else []),
      rule_context = None\<rparr>"

definition example_engine :: "contraction_rule list \<Rightarrow> engine" where
  "example_engine rules =
     \<lparr>decode = map unat, pad_treatment = (\<lambda>cps. cps), levels = 1,
      weight_table = (\<lambda>cp. None), patch_set = (\<lambda>cp. None),
      implicit_weight = (\<lambda>cp l. if l = 0 then [of_nat cp] else []),
      contraction_table = rules, reorder_table = []\<rparr>"

lemma differs_at_some_index_iff:
  "differs_at_some_index orgVal val \<longleftrightarrow> (\<exists>i<length val. orgVal ! i \<noteq> val ! i)"
  by (auto simp: differs_at_some_index_def list_ex_iff)

lemma in_diffMap_iff:
  "in_diffMap orgWeights (key, val) \<longleftrightarrow>
     (map_of orgWeights key = None \<or>
      (\<exists>orgVal. map_of orgWeights key = Some orgVal \<and>
         (length orgVal \<noteq> length val \<or> (\<exists>i<length val. orgVal ! i \<noteq> val ! i))))"
  by (auto simp: in_diffMap_def differs_at_some_index_iff split: option.splits)

lemma patches_of_ok:
  "\<forall>kv\<in>set kvs. \<not> isl (key_codepoint (fst kv)) \<Longrightarrow>
   patches_of kvs = Inr (map (\<lambda>kv. \<lparr>Codepoint = projr (key_codepoint (fst kv)), Patch = snd kv\<rparr>) kvs)"
proof (induction kvs)
  case Nil
  show ?case by simp
next
  case (Cons kv kvs)
  from Cons.prems obtain cp where cp: "key_codepoint (fst kv) = Inr cp"
    by (cases "key_codepoint (fst kv)") auto
  from Cons show ?case by (simp add: patch_of_def cp)
qed

lemma patches_of_panics:
  "\<exists>kv\<in>set kvs. isl (key_codepoint (fst kv)) \<Longrightarrow> isl (patches_of kvs)"
proof (induction kvs)
  case Nil
  then show ?case by simp
next
  case (Cons kv kvs)
  show ?case
  proof (cases "key_codepoint (fst kv)")
    case (Inl e)
    then show ?thesis by (simp add: patch_of_def)
  next
    case (Inr cp)
    with Cons.prems have "\<exists>kv\<in>set kvs. isl (key_codepoint (fst kv))" by auto
    then have "isl (patches_of kvs)" by (rule Cons.IH)
    then show ?thesis by (cases "patches_of kvs") (simp_all add: patch_of_def Inr)
  qed
qed


lemma diffMaps_ok:
  assumes "\<forall>kv\<in>set modWeights. in_diffMap orgWeights kv \<longrightarrow> \<not> isl (key_codepoint (fst kv))"
  shows "diffMaps orgWeights modWeights =
           Inr (sort_key Codepoint
                 (map (\<lambda>kv. \<lparr>Codepoint = projr (key_codepoint (fst kv)), Patch = snd kv\<rparr>)
                      (filter (in_diffMap orgWeights) modWeights)))"
proof -
  have "\<forall>kv\<in>set (filter (in_diffMap orgWeights) modWeights). \<not> isl (key_codepoint (fst kv))"
    using assms by simp
  from patches_of_ok [OF this] show ?thesis
    by (cases modWeights) (simp_all add: diffMaps_def)
qed

lemma diffMaps_panics:
  assumes "\<exists>kv\<in>set modWeights. in_diffMap orgWeights kv \<and> isl (key_codepoint (fst kv))"
  shows "isl (diffMaps orgWeights modWeights)"
proof -
  have "\<exists>kv\<in>set (filter (in_diffMap orgWeights) modWeights). isl (key_codepoint (fst kv))"
    using assms by fastforce
  from patches_of_panics [OF this] have "isl (patches_of (filter (in_diffMap orgWeights) modWeights))" .
  moreover from assms have "modWeights \<noteq> []" by auto
  ultimately show ?thesis
    by (cases "patches_of (filter (in_diffMap orgWeights) modWeights)") (simp_all add: diffMaps_def)
qed

theorem diffMaps_sorted_difference:
  assumes keys: "distinct (map fst modWeights)"
  shows "((\<forall>key val. map_of modWeights key = Some val \<and> in_diffMap orgWeights (key, val)
             \<longrightarrow> (\<exists>cp. key_codepoint key = Inr cp)) \<longrightarrow>
          (\<exists>diff. diffMaps orgWeights modWeights = Inr diff
             \<and> (\<forall>p. p \<in> set diff \<longleftrightarrow>
                   (\<exists>key val. map_of modWeights key = Some val
                      \<and> (map_of orgWeights key = None
                         \<or> (\<exists>orgVal. map_of orgWeights key = Some orgVal
                              \<and> (length orgVal \<noteq> length val
                                 \<or> (\<exists>i<length val. orgVal ! i \<noteq> val ! i))))
                      \<and> key_codepoint key = Inr (Codepoint p) \<and> Patch p = val))
             \<and> length diff = length (filter (in_diffMap orgWeights) modWeights)
             \<and> sorted (map Codepoint diff)
             \<and> (inj_on key_codepoint {key. \<exists>val. map_of modWeights key = Some val
                                              \<and> in_diffMap orgWeights (key, val)}
                  \<longrightarrow> sorted_wrt (<) (map Codepoint diff))))
       \<and> ((\<exists>key val. map_of modWeights key = Some val \<and> in_diffMap orgWeights (key, val)
             \<and> (\<forall>cp. key_codepoint key \<noteq> Inr cp)) \<longrightarrow>
          (\<exists>e. diffMaps orgWeights modWeights = Inl e))
       \<and> diffMaps orgWeights [] = Inr []"
proof (intro conjI impI)
  let ?mk = "\<lambda>kv. \<lparr>Codepoint = projr (key_codepoint (fst kv)), Patch = snd kv\<rparr>"
  let ?D = "filter (in_diffMap orgWeights) modWeights"
  have mem: "\<And>key val. (key, val) \<in> set modWeights \<longleftrightarrow> map_of modWeights key = Some val"
    using keys by simp
  assume ok: "\<forall>key val. map_of modWeights key = Some val \<and> in_diffMap orgWeights (key, val)
             \<longrightarrow> (\<exists>cp. key_codepoint key = Inr cp)"
  have ok': "\<forall>kv\<in>set modWeights. in_diffMap orgWeights kv \<longrightarrow> \<not> isl (key_codepoint (fst kv))"
  proof (intro ballI impI)
    fix kv assume "kv \<in> set modWeights" "in_diffMap orgWeights kv"
    then have "map_of modWeights (fst kv) = Some (snd kv) \<and> in_diffMap orgWeights (fst kv, snd kv)"
      using mem [of "fst kv" "snd kv"] by simp
    with ok obtain cp where "key_codepoint (fst kv) = Inr cp" by blast
    then show "\<not> isl (key_codepoint (fst kv))" by simp
  qed
  have eq: "diffMaps orgWeights modWeights = Inr (sort_key Codepoint (map ?mk ?D))"
    by (rule diffMaps_ok [OF ok'])
  have set_eq: "\<And>p :: WeightPatch. p \<in> set (sort_key Codepoint (map ?mk ?D)) \<longleftrightarrow>
        (\<exists>key val. map_of modWeights key = Some val
                      \<and> (map_of orgWeights key = None
                         \<or> (\<exists>orgVal. map_of orgWeights key = Some orgVal
                              \<and> (length orgVal \<noteq> length val
                                 \<or> (\<exists>i<length val. orgVal ! i \<noteq> val ! i))))
                      \<and> key_codepoint key = Inr (Codepoint p) \<and> Patch p = val)"
  proof
    fix p :: WeightPatch assume "p \<in> set (sort_key Codepoint (map ?mk ?D))"
    then obtain kv where kv: "kv \<in> set modWeights" "in_diffMap orgWeights kv" "p = ?mk kv"
      by auto
    obtain key val where [simp]: "kv = (key, val)" by (cases kv)
    from kv ok' obtain cp where cp: "key_codepoint key = Inr cp"
      by (cases "key_codepoint key") auto
    from kv cp mem [of key val] in_diffMap_iff [of orgWeights key val]
    show "\<exists>key val. map_of modWeights key = Some val
                      \<and> (map_of orgWeights key = None
                         \<or> (\<exists>orgVal. map_of orgWeights key = Some orgVal
                              \<and> (length orgVal \<noteq> length val
                                 \<or> (\<exists>i<length val. orgVal ! i \<noteq> val ! i))))
                      \<and> key_codepoint key = Inr (Codepoint p) \<and> Patch p = val"
      by (intro exI [of _ key] exI [of _ val]) simp
  next
    fix p :: WeightPatch assume "\<exists>key val. map_of modWeights key = Some val
                      \<and> (map_of orgWeights key = None
                         \<or> (\<exists>orgVal. map_of orgWeights key = Some orgVal
                              \<and> (length orgVal \<noteq> length val
                                 \<or> (\<exists>i<length val. orgVal ! i \<noteq> val ! i))))
                      \<and> key_codepoint key = Inr (Codepoint p) \<and> Patch p = val"
    then obtain key val where kv: "map_of modWeights key = Some val"
        "in_diffMap orgWeights (key, val)" "key_codepoint key = Inr (Codepoint p)" "Patch p = val"
      using in_diffMap_iff by blast
    then have "(key, val) \<in> set ?D" using mem by simp
    moreover have "p = ?mk (key, val)" using kv by simp
    ultimately have "p \<in> ?mk ` set ?D" by (rule rev_image_eqI)
    then show "p \<in> set (sort_key Codepoint (map ?mk ?D))" by simp
  qed
  have strict: "sorted_wrt (<) (map Codepoint (sort_key Codepoint (map ?mk ?D)))"
    if inj: "inj_on key_codepoint {key. \<exists>val. map_of modWeights key = Some val
                                              \<and> in_diffMap orgWeights (key, val)}"
  proof -
    have "distinct modWeights" using keys by (simp add: distinct_map)
    then have dD: "distinct ?D" by simp
    have "inj_on (\<lambda>kv. Codepoint (?mk kv)) (set ?D)"
    proof (rule inj_onI)
      fix x y assume x: "x \<in> set ?D" and y: "y \<in> set ?D"
        and e: "Codepoint (?mk x) = Codepoint (?mk y)"
      from x ok' obtain cx where cx: "key_codepoint (fst x) = Inr cx"
        by (cases "key_codepoint (fst x)") auto
      from y ok' obtain cy where cy: "key_codepoint (fst y) = Inr cy"
        by (cases "key_codepoint (fst y)") auto
      from e cx cy have "key_codepoint (fst x) = key_codepoint (fst y)" by simp
      moreover from x mem [of "fst x" "snd x"]
      have mx: "map_of modWeights (fst x) = Some (snd x)" "in_diffMap orgWeights (fst x, snd x)"
        by simp_all
      moreover from y mem [of "fst y" "snd y"]
      have my: "map_of modWeights (fst y) = Some (snd y)" "in_diffMap orgWeights (fst y, snd y)"
        by simp_all
      ultimately have "fst x = fst y" using inj
        by (intro inj_onD [OF inj]) blast+
      with mx(1) my(1) show "x = y" by (simp add: prod_eq_iff)
    qed
    with dD have "distinct (map (\<lambda>kv. Codepoint (?mk kv)) ?D)" by (simp add: distinct_map)
    then have "distinct (map Codepoint (map ?mk ?D))" by (simp add: comp_def)
    then have "distinct (map Codepoint (sort_key Codepoint (map ?mk ?D)))"
      by (simp only: distinct_map distinct_sort set_sort)
    with sorted_sort_key [of Codepoint "map ?mk ?D"] show ?thesis
      by (simp only: strict_sorted_iff)
  qed
  show "\<exists>diff. diffMaps orgWeights modWeights = Inr diff
             \<and> (\<forall>p. p \<in> set diff \<longleftrightarrow>
                   (\<exists>key val. map_of modWeights key = Some val
                      \<and> (map_of orgWeights key = None
                         \<or> (\<exists>orgVal. map_of orgWeights key = Some orgVal
                              \<and> (length orgVal \<noteq> length val
                                 \<or> (\<exists>i<length val. orgVal ! i \<noteq> val ! i))))
                      \<and> key_codepoint key = Inr (Codepoint p) \<and> Patch p = val))
             \<and> length diff = length (filter (in_diffMap orgWeights) modWeights)
             \<and> sorted (map Codepoint diff)
             \<and> (inj_on key_codepoint {key. \<exists>val. map_of modWeights key = Some val
                                              \<and> in_diffMap orgWeights (key, val)}
                  \<longrightarrow> sorted_wrt (<) (map Codepoint diff))"
    apply (rule exI [of _ "sort_key Codepoint (map ?mk ?D)"])
    apply (intro conjI allI impI)
        apply (rule eq)
       apply (rule set_eq)
      apply simp
     apply (rule sorted_sort_key)
    apply (erule strict)
    done
next
  assume "\<exists>key val. map_of modWeights key = Some val \<and> in_diffMap orgWeights (key, val)
             \<and> (\<forall>cp. key_codepoint key \<noteq> Inr cp)"
  then obtain key val where kv: "map_of modWeights key = Some val" "in_diffMap orgWeights (key, val)"
     "\<forall>cp. key_codepoint key \<noteq> Inr cp" by blast
  then have "(key, val) \<in> set modWeights" by (simp add: map_of_SomeD)
  moreover have "isl (key_codepoint key)" using kv(3) by (cases "key_codepoint key") auto
  ultimately have "\<exists>kv\<in>set modWeights. in_diffMap orgWeights kv \<and> isl (key_codepoint (fst kv))"
    using kv(2) by force
  from diffMaps_panics [OF this] show "\<exists>e. diffMaps orgWeights modWeights = Inl e"
    by (cases "diffMaps orgWeights modWeights") auto
next
  show "diffMaps orgWeights [] = Inr []" by (simp add: diffMaps_def)
qed


theorem diffMaps_sorted_difference_witness:
  "distinct (map fst [(''U+0042'', [1 :: weight]), (''U+0041'', [1, 3]), (''U+0043'', [7])])
   \<and> inj_on key_codepoint
        {key. \<exists>val. map_of [(''U+0042'', [1 :: weight]), (''U+0041'', [1, 3]), (''U+0043'', [7])] key = Some val
                 \<and> in_diffMap [(''U+0041'', [1, 2]), (''U+0043'', [7])] (key, val)}
   \<and> diffMaps [(''U+0041'', [1, 2]), (''U+0043'', [7])]
               [(''U+0042'', [1]), (''U+0041'', [1, 3]), (''U+0043'', [7])]
        = Inr [\<lparr>Codepoint = 65, Patch = [1, 3]\<rparr>, \<lparr>Codepoint = 66, Patch = [1]\<rparr>]
   \<and> distinct (map fst [(''x'', [1 :: weight])])
   \<and> (\<exists>key val. map_of [(''x'', [1 :: weight])] key = Some val \<and> in_diffMap [] (key, val)
          \<and> (\<forall>cp. key_codepoint key \<noteq> Inr cp))
   \<and> (\<exists>e. diffMaps [] [(''x'', [1])] = Inl e)"
proof -
  let ?org = "[(''U+0041'', [1, 2]), (''U+0043'', [7])] :: tailoringWeights"
  let ?mod = "[(''U+0042'', [1]), (''U+0041'', [1, 3]), (''U+0043'', [7])] :: tailoringWeights"
  have k41: "key_codepoint ''U+0041'' = Inr 65"
    by (simp add: key_codepoint_def ParseInt_def ParseUint_def digit_of_def lower_def)
  have k42: "key_codepoint ''U+0042'' = Inr 66"
    by (simp add: key_codepoint_def ParseInt_def ParseUint_def digit_of_def lower_def)
  have d43: "\<not> in_diffMap ?org (''U+0043'', [7])"
    by (simp add: in_diffMap_def differs_at_some_index_def)
  have h1: "distinct (map fst ?mod)" by simp
  have h2: "\<forall>key val. map_of ?mod key = Some val \<and> in_diffMap ?org (key, val)
              \<longrightarrow> (\<exists>cp. key_codepoint key = Inr cp)"
    using k41 k42 d43 by (auto split: if_splits)
  have sub: "{key. \<exists>val. map_of ?mod key = Some val \<and> in_diffMap ?org (key, val)}
               \<subseteq> {''U+0042'', ''U+0041''}"
    using d43 by (auto split: if_splits)
  have "inj_on key_codepoint {''U+0042'', ''U+0041''}"
    by (simp add: k41 k42)
  then have h3: "inj_on key_codepoint {key. \<exists>val. map_of ?mod key = Some val \<and> in_diffMap ?org (key, val)}"
    using sub by (rule inj_on_subset)
  have v: "diffMaps ?org ?mod = Inr [\<lparr>Codepoint = 65, Patch = [1, 3]\<rparr>, \<lparr>Codepoint = 66, Patch = [1]\<rparr>]"
    by (simp add: diffMaps_def in_diffMap_def differs_at_some_index_def patch_of_def k41 k42)
  have g1: "distinct (map fst [(''x'', [1 :: weight])])" by simp
  have kx: "key_codepoint ''x'' = Inl SliceBoundsOutOfRange" by (simp add: key_codepoint_def)
  have g2: "\<exists>key val. map_of [(''x'', [1 :: weight])] key = Some val \<and> in_diffMap [] (key, val)
          \<and> (\<forall>cp. key_codepoint key \<noteq> Inr cp)"
    by (rule exI [of _ "''x''"], rule exI [of _ "[1]"]) (simp add: in_diffMap_def kx)
  from diffMaps_sorted_difference [OF g1, of "[]"] g2
  have p: "\<exists>e. diffMaps [] [(''x'', [1])] = Inl e" by blast
  from diffMaps_sorted_difference [OF h1, of ?org] h2 h3
  have "\<exists>diff. diffMaps ?org ?mod = Inr diff \<and> sorted_wrt (<) (map Codepoint diff)" by blast
  with h1 h3 v g1 g2 p show ?thesis by blast
qed

theorem diffMaps_strictly_ascending_counterexample:
  "map_sum id (map Codepoint) (diffMaps [] [(''U+41'', [1]), (''U+041'', [2])]) = Inr [65, 65]
   \<and> \<not> sorted_wrt (<) (map Codepoint (projr (diffMaps [] [(''U+41'', [1]), (''U+041'', [2])])))"
  by (simp add: diffMaps_def in_diffMap_def patch_of_def key_codepoint_def ParseInt_def ParseUint_def digit_of_def lower_def)

section \<open>Properties of the writers\<close>

lemma HasSuffix_iff: "HasSuffix s suffix \<longleftrightarrow> (\<exists>p. s = p @ suffix)"
proof
  assume "HasSuffix s suffix"
  then have "s = take (length s - length suffix) s @ suffix"
    by (metis HasSuffix_def append_take_drop_id)
  then show "\<exists>p. s = p @ suffix" ..
next
  assume "\<exists>p. s = p @ suffix"
  then show "HasSuffix s suffix" by (auto simp: HasSuffix_def)
qed

lemma HasSuffix_append: "HasSuffix s (u @ v) \<Longrightarrow> HasSuffix s v"
  by (auto simp: HasSuffix_iff)

lemma HasSuffix_same_length:
  "HasSuffix s u \<Longrightarrow> HasSuffix s v \<Longrightarrow> length u = length v \<Longrightarrow> u = v"
  by (auto simp: HasSuffix_iff)

lemma suffix_ai_ci_excl:
  "HasSuffix name ''_ai_ci'' \<Longrightarrow>
     \<not> HasSuffix name ''_as_ci'' \<and> \<not> HasSuffix name ''_as_cs'' \<and> \<not> HasSuffix name ''_as_cs_ks''"
proof (intro conjI notI)
  assume a: "HasSuffix name ''_ai_ci''"
  { assume "HasSuffix name ''_as_ci''"
    from HasSuffix_same_length [OF a this] show False by simp }
  { assume "HasSuffix name ''_as_cs''"
    from HasSuffix_same_length [OF a this] show False by simp }
  { assume "HasSuffix name ''_as_cs_ks''"
    then have "HasSuffix name (''_as'' @ ''_cs_ks'')" by simp
    then have "HasSuffix name ''_cs_ks''" by (rule HasSuffix_append)
    from HasSuffix_same_length [OF a this] show False by simp }
qed

lemma suffix_as_ci_excl:
  "HasSuffix name ''_as_ci'' \<Longrightarrow>
     \<not> HasSuffix name ''_as_cs'' \<and> \<not> HasSuffix name ''_as_cs_ks''"
proof (intro conjI notI)
  assume a: "HasSuffix name ''_as_ci''"
  { assume "HasSuffix name ''_as_cs''"
    from HasSuffix_same_length [OF a this] show False by simp }
  { assume "HasSuffix name ''_as_cs_ks''"
    then have "HasSuffix name (''_as'' @ ''_cs_ks'')" by simp
    then have "HasSuffix name ''_cs_ks''" by (rule HasSuffix_append)
    from HasSuffix_same_length [OF a this] show False by simp }
qed

lemma suffix_as_cs_excl:
  "HasSuffix name ''_as_cs'' \<Longrightarrow> \<not> HasSuffix name ''_as_cs_ks''"
proof
  assume a: "HasSuffix name ''_as_cs''"
  assume "HasSuffix name ''_as_cs_ks''"
  then have "HasSuffix name (''_as'' @ ''_cs_ks'')" by simp
  then have "HasSuffix name ''_cs_ks''" by (rule HasSuffix_append)
  from HasSuffix_same_length [OF a this] show False by simp
qed

lemma levelsForCompare_Inr:
  assumes "levelsForCompare name = Inr n"
  shows "1 \<le> n \<and> n \<le> 4
     \<and> (n = 1 \<longleftrightarrow> HasSuffix name ''_ai_ci'')
     \<and> (n = 2 \<longleftrightarrow> HasSuffix name ''_as_ci'')
     \<and> (n = 3 \<longleftrightarrow> HasSuffix name ''_as_cs'')
     \<and> (n = 4 \<longleftrightarrow> HasSuffix name ''_as_cs_ks'')"
  using assms suffix_ai_ci_excl [of name] suffix_as_ci_excl [of name] suffix_as_cs_excl [of name]
  by (auto simp: levelsForCompare_def split: if_splits)

lemma levelsForCompare_Inl:
  "\<not> HasSuffix name ''_ai_ci'' \<Longrightarrow> \<not> HasSuffix name ''_as_ci'' \<Longrightarrow>
   \<not> HasSuffix name ''_as_cs'' \<Longrightarrow> \<not> HasSuffix name ''_as_cs_ks'' \<Longrightarrow>
   levelsForCompare name = Inl (UnknownLevelsForCompare name)"
  by (simp add: levelsForCompare_def)

lemma init_print_table [simp]: "init (snd (print_table name coll val decl st)) = init st"
  by (simp add: print_table_def split: prod.splits)

lemma init_writeWeightPatches:
  "writeWeightPatches b meta st = Inr (t, st1) \<Longrightarrow> init st1 = init st"
  by (auto simp: writeWeightPatches_def split: sum.splits if_splits)
     (metis init_print_table snd_conv)+

lemma init_writeContractions [simp]: "init (snd (writeContractions meta st)) = init st"
  by (simp add: writeContractions_def)

lemma init_writeReorders [simp]: "init (snd (writeReorders meta st)) = init st"
  by (simp add: writeReorders_def)

lemma Name_uca900_table [simp]: "Name (snd (uca900_table meta)) = Name meta"
  by (simp add: uca900_table_def)

lemma opt_field_projections [simp]:
  "[x. F_name x \<leftarrow> opt_field F_tailoring t] = []"
  "[x. F_name x \<leftarrow> opt_field F_contractions t] = []"
  "[x. F_name x \<leftarrow> opt_field F_reorder t] = []"
  "[x. F_name x \<leftarrow> opt_field F_sort t] = []"
  "[n. F_levelsForCompare n \<leftarrow> opt_field F_tailoring t] = []"
  "[n. F_levelsForCompare n \<leftarrow> opt_field F_contractions t] = []"
  "[n. F_levelsForCompare n \<leftarrow> opt_field F_reorder t] = []"
  "[w. F_weights w \<leftarrow> opt_field F_tailoring t] = []"
  "[w. F_weights w \<leftarrow> opt_field F_contractions t] = []"
  "[w. F_weights w \<leftarrow> opt_field F_reorder t] = []"
  "[c. F_maxCodepoint c \<leftarrow> opt_field F_tailoring t] = []"
  "[c. F_maxCodepoint c \<leftarrow> opt_field F_contractions t] = []"
  "[x. F_tailoring x \<leftarrow> opt_field F_tailoring t] = opt_field id t"
  "[x. F_tailoring x \<leftarrow> opt_field F_contractions t] = []"
  "[x. F_tailoring x \<leftarrow> opt_field F_reorder t] = []"
  "[x. F_reorder x \<leftarrow> opt_field F_tailoring t] = []"
  "[x. F_reorder x \<leftarrow> opt_field F_contractions t] = []"
  "[x. F_reorder x \<leftarrow> opt_field F_reorder t] = opt_field id t"
  by (simp_all add: opt_field_def)

lemma writeUca900_Inr:
  assumes "writeUca900 b meta st = Inr st'"
  shows "\<exists>r n tp st1. init st' = init st @ [r]
           \<and> levelsForCompare (Name meta) = Inr n
           \<and> UCAVersion meta = 900
           \<and> reg_type r = ''Collation_utf8mb4_uca_0900''
           \<and> names_of r = [Name meta]
           \<and> levels_of r = [n]
           \<and> weights_of r = [fst (uca900_table meta)]
           \<and> writeWeightPatches b (snd (uca900_table meta)) st = Inr (tp, st1)
           \<and> tailorings_of r = opt_field id tp
           \<and> reorders_of r =
               opt_field id (fst (writeReorders (snd (uca900_table meta))
                                    (snd (writeContractions (snd (uca900_table meta)) st1))))
           \<and> tables st' =
               tables (snd (writeReorders (snd (uca900_table meta))
                              (snd (writeContractions (snd (uca900_table meta)) st1))))"
proof -
  obtain tw meta1 where t: "uca900_table meta = (tw, meta1)" by (cases "uca900_table meta")
  have nm: "Name meta1 = Name meta" using Name_uca900_table [of meta] t by simp
  from assms t have v: "UCAVersion meta = 900"
    by (auto simp: writeUca900_def split: if_splits)
  from assms t v obtain tp st1 where wp: "writeWeightPatches b meta1 st = Inr (tp, st1)"
    by (cases "writeWeightPatches b meta1 st") (auto simp: writeUca900_def)
  obtain tc st2 where wc: "writeContractions meta1 st1 = (tc, st2)" by (cases "writeContractions meta1 st1")
  obtain tr st3 where wr: "writeReorders meta1 st2 = (tr, st3)" by (cases "writeReorders meta1 st2")
  from assms t v wp wc wr obtain n where n: "levelsForCompare (Name meta) = Inr n"
    by (cases "levelsForCompare (Name meta)") (auto simp: writeUca900_def nm)
  have i3: "init st3 = init st"
    using init_writeWeightPatches [OF wp] init_writeContractions [of meta1 st1]
          init_writeReorders [of meta1 st2] wc wr by simp
  let ?r = "\<lparr>reg_type = ''Collation_utf8mb4_uca_0900'',
             reg_fields = [F_name (Name meta1), F_id (Number meta1),
                           F_levelsForCompare n, F_weights tw]
                          @ opt_field F_tailoring tp
                          @ opt_field F_contractions tc
                          @ opt_field F_reorder tr
                          @ (if UpperCaseFirst meta1 then [F_upperCaseFirst] else []),
             reg_default = Default (Flags meta1)\<rparr>"
  from assms t v wp wc wr n have st': "st' = add_registration ?r st3"
    by (simp add: writeUca900_def nm)
  have "init st' = init st @ [?r]" by (simp add: st' add_registration_def i3)
  moreover have "reg_type ?r = ''Collation_utf8mb4_uca_0900''" by simp
  moreover have "names_of ?r = [Name meta]" by (simp add: names_of_def nm)
  moreover have "levels_of ?r = [n]" by (simp add: levels_of_def)
  moreover have "weights_of ?r = [fst (uca900_table meta)]" by (simp add: weights_of_def t)
  moreover have "writeWeightPatches b (snd (uca900_table meta)) st = Inr (tp, st1)"
    by (simp add: t wp)
  moreover have "tailorings_of ?r = opt_field id tp" by (simp add: tailorings_of_def)
  moreover have "reorders_of ?r =
               opt_field id (fst (writeReorders (snd (uca900_table meta))
                                    (snd (writeContractions (snd (uca900_table meta)) st1))))"
    by (simp add: reorders_of_def t wc wr)
  moreover have "tables st' =
               tables (snd (writeReorders (snd (uca900_table meta))
                              (snd (writeContractions (snd (uca900_table meta)) st1))))"
    by (simp add: st' add_registration_def t wc wr)
  ultimately show ?thesis using n v by blast
qed

lemma writeUca900_total:
  assumes "UCAVersion meta = 900"
    and "diffMaps (baseWeightsUca900 b) (Weights (snd (uca900_table meta))) = Inr d"
    and "levelsForCompare (Name meta) = Inr n"
  shows "\<exists>st'. writeUca900 b meta st = Inr st'"
proof -
  obtain tw meta1 where t: "uca900_table meta = (tw, meta1)" by (cases "uca900_table meta")
  have nm: "Name meta1 = Name meta" using Name_uca900_table [of meta] t by simp
  have v1: "UCAVersion meta1 = 900" using assms(1) t
    by (auto simp: uca900_table_def split: if_splits)
  from assms(2) t have d: "diffMaps (baseWeightsUca900 b) (Weights meta1) = Inr d" by simp
  have "\<exists>p. writeWeightPatches b meta1 st = Inr p"
    using v1 d by (simp add: writeWeightPatches_def)
  then obtain tp st1 where wp: "writeWeightPatches b meta1 st = Inr (tp, st1)"
    by force
  obtain tc st2 where wc: "writeContractions meta1 st1 = (tc, st2)" by (cases "writeContractions meta1 st1")
  obtain tr st3 where wr: "writeReorders meta1 st2 = (tr, st3)" by (cases "writeReorders meta1 st2")
  show ?thesis using assms(1,3) t wp wc wr by (simp add: writeUca900_def nm)
qed

lemma fmt_d_400: "fmt_d 400 = ''400''"
  by (simp add: fmt_d_def fmt_nat.simps)

lemma fmt_d_520: "fmt_d 520 = ''520''"
  by (simp add: fmt_d_def fmt_nat.simps)

lemma writeUcaLegacy_Inr:
  assumes "writeUcaLegacy b meta st = Inr st'"
  shows "\<exists>r. init st' = init st @ [r]
           \<and> reg_type r = ''Collation_uca_legacy''
           \<and> names_of r = [Name meta]
           \<and> (UCAVersion meta = 400 \<or> UCAVersion meta = 520)
           \<and> weights_of r = [''uca.WeightTable_uca'' @ fmt_d (UCAVersion meta)]
           \<and> maxCodepoints_of r = [if UCAVersion meta = 400 then 0xFFFF else 0x10FFFF]"
proof -
  from assms obtain tp st1 where wp: "writeWeightPatches b meta st = Inr (tp, st1)"
    by (cases "writeWeightPatches b meta st") (auto simp: writeUcaLegacy_def)
  obtain tc st2 where wc: "writeContractions meta st1 = (tc, st2)"
    by (cases "writeContractions meta st1")
  from assms wp wc have v: "UCAVersion meta = 400 \<or> UCAVersion meta = 520"
    by (auto simp: writeUcaLegacy_def split: if_splits)
  have i2: "init st2 = init st"
    using init_writeWeightPatches [OF wp] init_writeContractions [of meta st1] wc by simp
  let ?mc = "if UCAVersion meta = 400 then 0xFFFF else (0x10FFFF :: nat)"
  let ?r = "\<lparr>reg_type = ''Collation_uca_legacy'',
             reg_fields = [F_name (Name meta), F_id (Number meta), F_charset (Charset meta),
                           F_weights (''uca.WeightTable_uca'' @ fmt_d (UCAVersion meta))]
                          @ opt_field F_tailoring tp
                          @ opt_field F_contractions tc
                          @ [F_maxCodepoint ?mc],
             reg_default = Default (Flags meta)\<rparr>"
  from assms wp wc v have st': "st' = add_registration ?r st2"
    by (auto simp: writeUcaLegacy_def)
  have "init st' = init st @ [?r]" by (simp add: st' add_registration_def i2)
  moreover have "reg_type ?r = ''Collation_uca_legacy''" by simp
  moreover have "names_of ?r = [Name meta]" by (simp add: names_of_def)
  moreover have "weights_of ?r = [''uca.WeightTable_uca'' @ fmt_d (UCAVersion meta)]"
    by (simp add: weights_of_def)
  moreover have "maxCodepoints_of ?r = [?mc]" by (simp add: maxCodepoints_of_def)
  ultimately show ?thesis using v by blast
qed

lemma writeUcaLegacy_total:
  assumes "UCAVersion meta = 400 \<or> UCAVersion meta = 520"
    and "diffMaps (if UCAVersion meta = 400 then baseWeightsUca400 b else baseWeightsUca520 b)
           (Weights meta) = Inr d"
  shows "\<exists>st'. writeUcaLegacy b meta st = Inr st'"
proof -
  have "\<exists>p. writeWeightPatches b meta st = Inr p"
    using assms by (auto simp: writeWeightPatches_def)
  then obtain tp st1 where wp: "writeWeightPatches b meta st = Inr (tp, st1)"
    by force
  obtain tc st2 where wc: "writeContractions meta st1 = (tc, st2)"
    by (cases "writeContractions meta st1")
  show ?thesis using assms(1) wp wc by (auto simp: writeUcaLegacy_def)
qed

lemma writeUcaLegacy_invalid:
  assumes "UCAVersion meta \<noteq> 400" "UCAVersion meta \<noteq> 520"
  shows "\<exists>e. writeUcaLegacy b meta st = Inl e"
proof (cases "writeUcaLegacy b meta st")
  case (Inl e)
  then show ?thesis by blast
next
  case (Inr st')
  from writeUcaLegacy_Inr [OF this] assms show ?thesis by blast
qed

lemma writeWeightPatches_invalid:
  "UCAVersion meta \<noteq> 400 \<Longrightarrow> UCAVersion meta \<noteq> 520 \<Longrightarrow> UCAVersion meta \<noteq> 900 \<Longrightarrow>
   writeWeightPatches b meta st = Inl InvalidUCAVersion"
  by (simp add: writeWeightPatches_def)

lemma writeWeightPatches_no_weights:
  assumes "Weights meta = []"
    and "UCAVersion meta = 400 \<or> UCAVersion meta = 520 \<or> UCAVersion meta = 900"
  shows "writeWeightPatches b meta st = Inr ([], st)"
  using assms by (auto simp: writeWeightPatches_def diffMaps_def)

lemma init_printByteSlice [simp]: "init (snd (printByteSlice name coll a st)) = init st"
  by (simp add: printByteSlice_def)

lemma init_printUnsignedSlice [simp]: "init (snd (printUnsignedSlice name coll a st)) = init st"
  by (simp add: printUnsignedSlice_def)

lemma init_printUnicodeMappings [simp]: "init (snd (printUnicodeMappings name coll a st)) = init st"
  by (simp add: printUnicodeMappings_def)

lemma init_printByteSliceD: "printByteSlice name coll a st = (t, st') \<Longrightarrow> init st' = init st"
  using init_printByteSlice [of name coll a st] by simp

lemma init_printUnsignedSliceD: "printUnsignedSlice name coll a st = (t, st') \<Longrightarrow> init st' = init st"
  using init_printUnsignedSlice [of name coll a st] by simp

lemma init_printUnicodeMappingsD:
  "printUnicodeMappings name coll a st = (t, st') \<Longrightarrow> init st' = init st"
  using init_printUnicodeMappings [of name coll a st] by simp

lemma write8bit_shape:
  "\<exists>r. init (write8bit fl meta st) = init st @ [r]
      \<and> (reg_type r = ''Collation_8bit_bin'' \<or> reg_type r = ''Collation_8bit_simple_ci'')
      \<and> names_of r = [Name meta]"
proof -
  define c1 where "c1 = (if Print8BitData fl
            then (case printByteSlice ''ctype'' (Name meta) (CType meta) st of
                    (tableCtype, s1) \<Rightarrow>
                      (case printByteSlice ''tolower'' (Name meta) (ToLower meta) s1 of
                         (tableToLower, s2) \<Rightarrow>
                           (case printByteSlice ''toupper'' (Name meta) (ToUpper meta) s2 of
                              (tableToUpper, s3) \<Rightarrow>
                                ([S_ctype tableCtype, S_tolower tableToLower,
                                  S_toupper tableToUpper], s3))))
            else ([], st))"
  obtain caseTables st1 where c1: "c1 = (caseTables, st1)" by (cases c1)
  have i1: "init st1 = init st"
  proof (cases "Print8BitData fl")
    case False
    with c1 show ?thesis by (simp add: c1_def)
  next
    case True
    obtain t1 s1 where p1: "printByteSlice ''ctype'' (Name meta) (CType meta) st = (t1, s1)"
      by (cases "printByteSlice ''ctype'' (Name meta) (CType meta) st")
    obtain t2 s2 where p2: "printByteSlice ''tolower'' (Name meta) (ToLower meta) s1 = (t2, s2)"
      by (cases "printByteSlice ''tolower'' (Name meta) (ToLower meta) s1")
    obtain t3 s3 where p3: "printByteSlice ''toupper'' (Name meta) (ToUpper meta) s2 = (t3, s3)"
      by (cases "printByteSlice ''toupper'' (Name meta) (ToUpper meta) s2")
    from True c1 p1 p2 p3 have "st1 = s3" by (simp add: c1_def)
    moreover have "init s1 = init st"
      using init_printByteSlice [of "''ctype''" "Name meta" "CType meta" st] p1 by simp
    moreover have "init s2 = init s1"
      using init_printByteSlice [of "''tolower''" "Name meta" "ToLower meta" s1] p2 by simp
    moreover have "init s3 = init s2"
      using init_printByteSlice [of "''toupper''" "Name meta" "ToUpper meta" s2] p3 by simp
    ultimately show ?thesis by simp
  qed
  define c2 where "c2 = (if SortOrder meta \<noteq> None
                 then printByteSlice ''sortorder'' (Name meta) (SortOrder meta) st1
                 else ([], st1))"
  obtain tableSortOrder st2 where c2: "c2 = (tableSortOrder, st2)" by (cases c2)
  have i2: "init st2 = init st1"
    using c2 by (auto simp: c2_def split: if_splits dest: init_printByteSliceD)
  define c3 where "c3 = (if Charset meta \<noteq> ''latin1'' \<and> TabToUni meta \<noteq> None
                      then printUnsignedSlice ''tounicode'' (Name meta) (TabToUni meta) st2
                      else ([], st2))"
  obtain tableToUnicode st3 where c3: "c3 = (tableToUnicode, st3)" by (cases c3)
  have i3: "init st3 = init st2"
    using c3 by (auto simp: c3_def split: if_splits dest: init_printUnsignedSliceD)
  define c4 where "c4 = (if Charset meta \<noteq> ''latin1'' \<and> TabFromUni meta \<noteq> None
                           then printUnicodeMappings ''fromunicode'' (Name meta) (TabFromUni meta) st3
                           else ([], st3))"
  obtain tableFromUnicode st4 where c4: "c4 = (tableFromUnicode, st4)" by (cases c4)
  have i4: "init st4 = init st3"
    using c4 by (auto simp: c4_def split: if_splits dest: init_printUnicodeMappingsD)
  let ?r = "\<lparr>reg_type = (if Binary (Flags meta) then ''Collation_8bit_bin''
                                        else ''Collation_8bit_simple_ci''),
                            reg_fields =
                              [F_id (Number meta), F_name (Name meta),
                               F_simpletables (caseTables @ opt_field S_sort tableSortOrder),
                               (if Charset meta = ''latin1'' then F_charset_latin1
                                else F_charset_8bit
                                       ([C_Name (Charset meta)]
                                        @ opt_field C_ToUnicode tableToUnicode
                                        @ opt_field C_FromUnicode tableFromUnicode))],
                            reg_default = Default (Flags meta)\<rparr>"
  have "write8bit fl meta st = add_registration ?r (st4\<lparr>tables := tables st4 @ [BlankLine]\<rparr>)"
    unfolding write8bit_def c1_def [symmetric] c1 prod.case c2_def [symmetric] c2
      c3_def [symmetric] c3 c4_def [symmetric] c4 ..
  then have "init (write8bit fl meta st) = init st @ [?r]"
    by (simp add: add_registration_def i1 i2 i3 i4)
  moreover have "reg_type ?r = ''Collation_8bit_bin'' \<or> reg_type ?r = ''Collation_8bit_simple_ci''"
    by simp
  moreover have "names_of ?r = [Name meta]"
    by (simp add: names_of_def)
  ultimately show ?thesis by blast
qed

lemma writeUnicode_shape:
  "\<exists>r. init (writeUnicode meta st) = init st @ [r]
      \<and> (reg_type r = ''Collation_unicode_bin'' \<or> reg_type r = ''Collation_unicode_general_ci'')
      \<and> names_of r = [Name meta]"
  by (auto simp: writeUnicode_def add_registration_def names_of_def)

lemma writeMultibyte_shape:
  "\<exists>r. init (writeMultibyte meta st) = init st @ [r]
      \<and> reg_type r = ''Collation_multibyte''
      \<and> names_of r = [Name meta]"
proof -
  define c where "c = (if SortOrder meta \<noteq> None
            then printByteSlice ''sortorder'' (Name meta) (SortOrder meta) st
            else ([], st))"
  obtain tableSortOrder st1 where c: "c = (tableSortOrder, st1)" by (cases c)
  have i1: "init st1 = init st"
    using c by (auto simp: c_def split: if_splits dest: init_printByteSliceD)
  let ?r = "\<lparr>reg_type = ''Collation_multibyte'',
             reg_fields =
               [F_id (Number meta), F_name (Name meta)]
               @ opt_field F_sort tableSortOrder
               @ [F_charset (Charset meta)],
             reg_default = Default (Flags meta)\<rparr>"
  have "writeMultibyte meta st = add_registration ?r st1"
    unfolding writeMultibyte_def c_def [symmetric] c prod.case ..
  then have "init (writeMultibyte meta st) = init st @ [?r]"
    by (simp add: add_registration_def i1)
  moreover have "names_of ?r = [Name meta]"
    by (simp add: names_of_def)
  ultimately show ?thesis by auto
qed

section \<open>Properties of \<^verbatim>\<open>main\<close>\<close>

text \<open>The branches of the \<^verbatim>\<open>switch\<close> in the loop, for a step that does not panic.\<close>

lemma main_step_cases [consumes 1, case_names skip legacy uca900 bit8 multibyte unicode unsupported]:
  assumes "main_step fl mb uni b meta ms = Inr ms'"
  obtains
    (skip) "ms' = ms"
  | (legacy) st' where "writeUcaLegacy b meta (out ms) = Inr st'" "ms' = ms\<lparr>out := st'\<rparr>"
      "Name meta \<noteq> ''tis620_bin''"
  | (uca900) st' where "writeUca900 b meta (out ms) = Inr st'" "ms' = ms\<lparr>out := st'\<rparr>"
      "Name meta \<noteq> ''tis620_bin''"
  | (bit8) "ms' = ms\<lparr>out := write8bit fl meta (out ms)\<rparr>" "Name meta \<noteq> ''tis620_bin''"
  | (multibyte) "ms' = ms\<lparr>out := writeMultibyte meta (out ms)\<rparr>" "Name meta \<noteq> ''tis620_bin''"
  | (unicode) "ms' = ms\<lparr>out := writeUnicode meta (out ms)\<rparr>" "Name meta \<noteq> ''tis620_bin''"
  | (unsupported) "ms' = ms\<lparr>unsupported := unsupported ms @ [meta]\<rparr>"
      "Name meta \<noteq> ''tis620_bin''"
proof (cases "Name meta = ''utf8mb4_0900_bin'' \<or> Name meta = ''binary'' \<or> Name meta = ''tis620_bin''")
  case True
  with assms have "ms' = ms" by (auto simp: main_step_def)
  then show ?thesis by (rule skip)
next
  case n1: False
  show ?thesis
  proof (cases "CollationImpl meta = ''any_uca'' \<or> CollationImpl meta = ''utf16_uca''
              \<or> CollationImpl meta = ''utf32_uca'' \<or> CollationImpl meta = ''ucs2_uca''
              \<or> (CollationImpl meta \<noteq> ''uca_900'' \<and> CollationImpl meta \<noteq> ''8bit_bin''
                  \<and> CollationImpl meta \<noteq> ''8bit_simple_ci''
                  \<and> Name meta = ''gb18030_unicode_520_ci'')")
    case True
    with assms n1 obtain st' where "writeUcaLegacy b meta (out ms) = Inr st'" "ms' = ms\<lparr>out := st'\<rparr>"
      by (cases "writeUcaLegacy b meta (out ms)") (auto simp: main_step_def split: if_splits)
    with n1 show ?thesis by (intro legacy) auto
  next
    case n2: False
    show ?thesis
    proof (cases "CollationImpl meta = ''uca_900''")
      case True
      with assms n1 n2 obtain st' where "writeUca900 b meta (out ms) = Inr st'" "ms' = ms\<lparr>out := st'\<rparr>"
        by (cases "writeUca900 b meta (out ms)") (auto simp: main_step_def split: if_splits)
      with n1 show ?thesis by (intro uca900) auto
    next
      case n3: False
      show ?thesis
      proof (cases "CollationImpl meta = ''8bit_bin'' \<or> CollationImpl meta = ''8bit_simple_ci''")
        case True
        with assms n1 n2 n3 have "ms' = ms\<lparr>out := write8bit fl meta (out ms)\<rparr>"
          by (auto simp: main_step_def split: if_splits)
        with n1 show ?thesis by (intro bit8) auto
      next
        case n4: False
        from n2 n3 n4 have n5: "Name meta \<noteq> ''gb18030_unicode_520_ci''" by auto
        show ?thesis
        proof (cases "mb (Charset meta)")
          case True
          with assms n1 n2 n3 n4 n5 have "ms' = ms\<lparr>out := writeMultibyte meta (out ms)\<rparr>"
            by (auto simp: main_step_def split: if_splits)
          with n1 show ?thesis by (intro multibyte) auto
        next
          case n6: False
          show ?thesis
          proof (cases "(HasSuffix (Name meta) ''_bin'' \<and> uni (Charset meta))
                        \<or> HasSuffix (Name meta) ''_general_ci''")
            case True
            with assms n1 n2 n3 n4 n5 n6 have "ms' = ms\<lparr>out := writeUnicode meta (out ms)\<rparr>"
              by (auto simp: main_step_def split: if_splits)
            with n1 show ?thesis by (intro unicode) auto
          next
            case False
            with assms n1 n2 n3 n4 n5 n6 have "ms' = ms\<lparr>unsupported := unsupported ms @ [meta]\<rparr>"
              by (auto simp: main_step_def split: if_splits)
            with n1 show ?thesis by (intro unsupported) auto
          qed
        qed
      qed
    qed
  qed
qed

lemma main_loop_invariant:
  assumes "main_loop fl mb uni b metas ms = Inr ms'"
    and "I ms"
    and "\<And>meta ms ms'. I ms \<Longrightarrow> main_step fl mb uni b meta ms = Inr ms' \<Longrightarrow> I ms'"
  shows "I ms'"
  using assms(1,2)
proof (induction metas arbitrary: ms)
  case Nil
  then show ?case by simp
next
  case (Cons meta metas)
  from Cons.prems(1) obtain ms1 where s: "main_step fl mb uni b meta ms = Inr ms1"
    and l: "main_loop fl mb uni b metas ms1 = Inr ms'"
    by (cases "main_step fl mb uni b meta ms") auto
  from assms(3) [OF Cons.prems(2) s] have "I ms1" .
  with l show ?case by (rule Cons.IH)
qed

text \<open>
  What one step adds to \<^verbatim>\<open>init\<close>: nothing, or one registration written by one of the
  writers for a collation that is not \<^verbatim>\<open>tis620_bin\<close>.
\<close>

lemma main_step_init:
  assumes "main_step fl mb uni b meta ms = Inr ms'"
  shows "init (out ms') = init (out ms)
     \<or> (\<exists>r. init (out ms') = init (out ms) @ [r]
           \<and> Name meta \<noteq> ''tis620_bin''
           \<and> names_of r = [Name meta]
           \<and> (reg_type r = ''Collation_uca_legacy''
                \<longrightarrow> (\<exists>st'. writeUcaLegacy b meta (out ms) = Inr st'
                           \<and> init st' = init (out ms) @ [r]))
           \<and> (reg_type r = ''Collation_utf8mb4_uca_0900''
                \<longrightarrow> (\<exists>st'. writeUca900 b meta (out ms) = Inr st'
                           \<and> init st' = init (out ms) @ [r])))"
  using assms
proof (cases rule: main_step_cases)
  case skip
  then show ?thesis by simp
next
  case (legacy st')
  from writeUcaLegacy_Inr [OF legacy(1)] obtain r where
    r: "init st' = init (out ms) @ [r]" "reg_type r = ''Collation_uca_legacy''"
       "names_of r = [Name meta]"
    by blast
  have "init (out ms') = init (out ms) @ [r]" using legacy(2) r(1) by simp
  with r legacy show ?thesis by auto
next
  case (uca900 st')
  from writeUca900_Inr [OF uca900(1)] obtain r where
    r: "init st' = init (out ms) @ [r]" "reg_type r = ''Collation_utf8mb4_uca_0900''"
       "names_of r = [Name meta]"
    by blast
  have "init (out ms') = init (out ms) @ [r]" using uca900(2) r(1) by simp
  with r uca900 show ?thesis by auto
next
  case bit8
  from write8bit_shape [of fl meta "out ms"] obtain r where
    r: "init (write8bit fl meta (out ms)) = init (out ms) @ [r]"
       "reg_type r = ''Collation_8bit_bin'' \<or> reg_type r = ''Collation_8bit_simple_ci''"
       "names_of r = [Name meta]"
    by blast
  have "init (out ms') = init (out ms) @ [r]" using bit8(1) r(1) by simp
  moreover from r(2) have "reg_type r \<noteq> ''Collation_uca_legacy''"
    "reg_type r \<noteq> ''Collation_utf8mb4_uca_0900''" by auto
  ultimately show ?thesis using r(3) bit8(2) by auto
next
  case multibyte
  from writeMultibyte_shape [of meta "out ms"] obtain r where
    r: "init (writeMultibyte meta (out ms)) = init (out ms) @ [r]"
       "reg_type r = ''Collation_multibyte''"
       "names_of r = [Name meta]"
    by blast
  have "init (out ms') = init (out ms) @ [r]" using multibyte(1) r(1) by simp
  moreover from r(2) have "reg_type r \<noteq> ''Collation_uca_legacy''"
    "reg_type r \<noteq> ''Collation_utf8mb4_uca_0900''" by auto
  ultimately show ?thesis using r(3) multibyte(2) by auto
next
  case unicode
  from writeUnicode_shape [of meta "out ms"] obtain r where
    r: "init (writeUnicode meta (out ms)) = init (out ms) @ [r]"
       "reg_type r = ''Collation_unicode_bin'' \<or> reg_type r = ''Collation_unicode_general_ci''"
       "names_of r = [Name meta]"
    by blast
  have "init (out ms') = init (out ms) @ [r]" using unicode(1) r(1) by simp
  moreover from r(2) have "reg_type r \<noteq> ''Collation_uca_legacy''"
    "reg_type r \<noteq> ''Collation_utf8mb4_uca_0900''" by auto
  ultimately show ?thesis using r(3) unicode(2) by auto
next
  case unsupported
  then show ?thesis by simp
qed

lemma main_step_unsupported:
  assumes "main_step fl mb uni b meta ms = Inr ms'"
  shows "unsupported ms' = unsupported ms
     \<or> (unsupported ms' = unsupported ms @ [meta] \<and> Name meta \<noteq> ''tis620_bin'')"
  using assms by (cases rule: main_step_cases) auto

lemma main_Inr:
  assumes "main fl mb uni allMetadata = Inr g"
  obtains b ms where
    "main_loop fl mb uni b allMetadata
        \<lparr>out = \<lparr>tables = [], init = [], seenTables = []\<rparr>, unsupported = []\<rparr> = Inr ms"
    "gen_init g = init (out ms)"
    "collationsUnsupportedByName g = map (\<lambda>meta. (Name meta, Number meta)) (unsupported ms)"
  using assms by (auto simp: main_def split: sum.splits)
text \<open>
  Every registration in the generated file was written by one step of the loop, for a
  collation other than \<^verbatim>\<open>tis620_bin\<close>, and names that collation.
\<close>

lemma main_loop_registrations:
  assumes "main_loop fl mb uni b metas ms0 = Inr ms"
    and "init (out ms0) = []"
    and "r \<in> set (init (out ms))"
  shows "\<exists>meta st. names_of r = [Name meta] \<and> Name meta \<noteq> ''tis620_bin''
           \<and> (reg_type r = ''Collation_uca_legacy''
                \<longrightarrow> (\<exists>st'. writeUcaLegacy b meta st = Inr st' \<and> init st' = init st @ [r]))
           \<and> (reg_type r = ''Collation_utf8mb4_uca_0900''
                \<longrightarrow> (\<exists>st'. writeUca900 b meta st = Inr st' \<and> init st' = init st @ [r]))"
proof -
  let ?Q = "\<lambda>r. \<exists>meta st. names_of r = [Name meta] \<and> Name meta \<noteq> ''tis620_bin''
           \<and> (reg_type r = ''Collation_uca_legacy''
                \<longrightarrow> (\<exists>st'. writeUcaLegacy b meta st = Inr st' \<and> init st' = init st @ [r]))
           \<and> (reg_type r = ''Collation_utf8mb4_uca_0900''
                \<longrightarrow> (\<exists>st'. writeUca900 b meta st = Inr st' \<and> init st' = init st @ [r]))"
  have "\<forall>r\<in>set (init (out ms)). ?Q r"
  proof (rule main_loop_invariant [OF assms(1), where I = "\<lambda>ms. \<forall>r\<in>set (init (out ms)). ?Q r"])
    show "\<forall>r\<in>set (init (out ms0)). ?Q r" using assms(2) by simp
  next
    fix meta ms1 ms2
    assume inv: "\<forall>r\<in>set (init (out ms1)). ?Q r"
      and step: "main_step fl mb uni b meta ms1 = Inr ms2"
    from main_step_init [OF step] show "\<forall>r\<in>set (init (out ms2)). ?Q r"
    proof
      assume "init (out ms2) = init (out ms1)"
      with inv show ?thesis by simp
    next
      assume "\<exists>r. init (out ms2) = init (out ms1) @ [r]
           \<and> Name meta \<noteq> ''tis620_bin''
           \<and> names_of r = [Name meta]
           \<and> (reg_type r = ''Collation_uca_legacy''
                \<longrightarrow> (\<exists>st'. writeUcaLegacy b meta (out ms1) = Inr st'
                           \<and> init st' = init (out ms1) @ [r]))
           \<and> (reg_type r = ''Collation_utf8mb4_uca_0900''
                \<longrightarrow> (\<exists>st'. writeUca900 b meta (out ms1) = Inr st'
                           \<and> init st' = init (out ms1) @ [r]))"
      then obtain r' where r': "init (out ms2) = init (out ms1) @ [r']" and "?Q r'"
        by blast
      with inv show ?thesis by auto
    qed
  qed
  with assms(3) show ?thesis by blast
qed

lemma main_registrations:
  assumes "main fl mb uni allMetadata = Inr g" and "r \<in> set (gen_init g)"
  shows "\<exists>b meta st. names_of r = [Name meta] \<and> Name meta \<noteq> ''tis620_bin''
           \<and> (reg_type r = ''Collation_uca_legacy''
                \<longrightarrow> (\<exists>st'. writeUcaLegacy b meta st = Inr st' \<and> init st' = init st @ [r]))
           \<and> (reg_type r = ''Collation_utf8mb4_uca_0900''
                \<longrightarrow> (\<exists>st'. writeUca900 b meta st = Inr st' \<and> init st' = init st @ [r]))"
proof -
  from assms(1) obtain b ms where
    l: "main_loop fl mb uni b allMetadata
          \<lparr>out = \<lparr>tables = [], init = [], seenTables = []\<rparr>, unsupported = []\<rparr> = Inr ms"
    and i: "gen_init g = init (out ms)"
    by (rule main_Inr)
  from assms(2) i have "r \<in> set (init (out ms))" by simp
  from main_loop_registrations [OF l _ this] show ?thesis by auto
qed

lemma main_unsupported:
  assumes "main fl mb uni allMetadata = Inr g"
  shows "''tis620_bin'' \<notin> fst ` set (collationsUnsupportedByName g)"
proof -
  from assms obtain b ms where
    l: "main_loop fl mb uni b allMetadata
          \<lparr>out = \<lparr>tables = [], init = [], seenTables = []\<rparr>, unsupported = []\<rparr> = Inr ms"
    and u: "collationsUnsupportedByName g = map (\<lambda>meta. (Name meta, Number meta)) (unsupported ms)"
    by (rule main_Inr)
  have "\<forall>m\<in>set (unsupported ms). Name m \<noteq> ''tis620_bin''"
  proof (rule main_loop_invariant [OF l, where I = "\<lambda>ms. \<forall>m\<in>set (unsupported ms). Name m \<noteq> ''tis620_bin''"])
    show "\<forall>m\<in>set (unsupported \<lparr>out = \<lparr>tables = [], init = [], seenTables = []\<rparr>,
                                 unsupported = []\<rparr>). Name m \<noteq> ''tis620_bin''"
      by simp
  next
    fix meta ms1 ms2
    assume inv: "\<forall>m\<in>set (unsupported ms1). Name m \<noteq> ''tis620_bin''"
      and step: "main_step fl mb uni b meta ms1 = Inr ms2"
    from main_step_unsupported [OF step] inv
    show "\<forall>m\<in>set (unsupported ms2). Name m \<noteq> ''tis620_bin''" by auto
  qed
  then show ?thesis by (auto simp: u)
qed

text \<open>Taking the metadata of \<^verbatim>\<open>tis620_bin\<close> out of the input changes nothing.\<close>

lemma find_filter:
  "(\<And>x. P x \<Longrightarrow> Q x) \<Longrightarrow> find P (filter Q xs) = find P xs"
  by (induction xs) auto

lemma base_weights_filter:
  assumes "name \<noteq> ''tis620_bin''"
  shows "base_weights (filter (\<lambda>meta. Name meta \<noteq> ''tis620_bin'') allMetadata) name
           = base_weights allMetadata name"
proof -
  have "find (\<lambda>meta. Name meta = name) (filter (\<lambda>meta. Name meta \<noteq> ''tis620_bin'') allMetadata)
          = find (\<lambda>meta. Name meta = name) allMetadata"
    using assms by (intro find_filter) auto
  then show ?thesis by (simp add: base_weights_def findCollation_def)
qed

lemma main_step_tis620_bin:
  "Name meta = ''tis620_bin'' \<Longrightarrow> main_step fl mb uni b meta ms = Inr ms"
  by (simp add: main_step_def)

lemma main_loop_filter:
  "main_loop fl mb uni b (filter (\<lambda>meta. Name meta \<noteq> ''tis620_bin'') metas) ms
     = main_loop fl mb uni b metas ms"
proof (induction metas arbitrary: ms)
  case Nil
  show ?case by simp
next
  case (Cons meta metas)
  show ?case
  proof (cases "Name meta = ''tis620_bin''")
    case True
    then show ?thesis by (simp add: main_step_tis620_bin Cons.IH)
  next
    case False
    then show ?thesis by (simp add: Cons.IH split: sum.splits)
  qed
qed

lemma main_filter:
  "main fl mb uni (filter (\<lambda>meta. Name meta \<noteq> ''tis620_bin'') allMetadata)
     = main fl mb uni allMetadata"
proof -
  let ?all' = "filter (\<lambda>meta. Name meta \<noteq> ''tis620_bin'') allMetadata"
  have b1: "base_weights ?all' ''utf8mb4_unicode_ci'' = base_weights allMetadata ''utf8mb4_unicode_ci''"
    by (rule base_weights_filter) simp
  have b2: "base_weights ?all' ''utf8mb4_unicode_520_ci''
              = base_weights allMetadata ''utf8mb4_unicode_520_ci''"
    by (rule base_weights_filter) simp
  have b3: "base_weights ?all' ''utf8mb4_0900_ai_ci'' = base_weights allMetadata ''utf8mb4_0900_ai_ci''"
    by (rule base_weights_filter) simp
  show ?thesis unfolding main_def b1 b2 b3 main_loop_filter ..
qed

text \<open>The generated file for \<^const>\<open>example_metadata\<close>.\<close>

lemmas eval_defs = main_def base_weights_def findCollation_def metadata_def main_step_def
  writeUcaLegacy_def writeUca900_def writeWeightPatches_def writeContractions_def
  writeReorders_def diffMaps_def uca900_table_def levelsForCompare_def HasSuffix_def
  add_registration_def opt_field_def fmt_d_def fmt_nat.simps example_metadata_def
  example_flags_def print_table_def dedupTable_def

lemma main_example:
  "main example_flags (\<lambda>cs. False) (\<lambda>cs. False) example_metadata =
    Inr \<lparr>gen_tables = [],
         collationsUnsupportedByName = [(''latin1_german2_ci'', 31)],
         gen_init =
           [\<lparr>reg_type = ''Collation_uca_legacy'',
             reg_fields = [F_name ''utf8mb4_unicode_ci'', F_id 224, F_charset ''utf8mb4'',
                           F_weights ''uca.WeightTable_uca400'', F_maxCodepoint 65535],
             reg_default = False\<rparr>,
            \<lparr>reg_type = ''Collation_uca_legacy'',
             reg_fields = [F_name ''utf8mb4_unicode_520_ci'', F_id 246, F_charset ''utf8mb4'',
                           F_weights ''uca.WeightTable_uca520'', F_maxCodepoint 1114111],
             reg_default = False\<rparr>,
            \<lparr>reg_type = ''Collation_utf8mb4_uca_0900'',
             reg_fields = [F_name ''utf8mb4_0900_ai_ci'', F_id 255, F_levelsForCompare 1,
                           F_weights ''uca.WeightTable_uca900''],
             reg_default = False\<rparr>,
            \<lparr>reg_type = ''Collation_utf8mb4_uca_0900'',
             reg_fields = [F_name ''utf8mb4_zh_0900_as_cs'', F_id 308, F_levelsForCompare 3,
                           F_weights ''uca.WeightTable_uca900_zh''],
             reg_default = False\<rparr>],
         gen_cleanup = []\<rparr>"
  by (simp add: eval_defs)

section \<open>The claims about the generator\<close>

text \<open>
  C6, as the code has it. The loop of \<^verbatim>\<open>main\<close> gives \<^verbatim>\<open>tis620_bin\<close> a case of its own
  with an empty body: whenever the generator finishes, no entry of
  \<^verbatim>\<open>collationsUnsupportedByName\<close> and no registration names \<^verbatim>\<open>tis620_bin\<close>, and the generated
  file is the one the generator writes when the metadata of \<^verbatim>\<open>tis620_bin\<close> is taken out of
  its input. Only a collation that reaches the \<^verbatim>\<open>default\<close> case is entered in
  \<^verbatim>\<open>collationsUnsupportedByName\<close>.
\<close>

theorem main_emits_nothing_for_tis620_bin:
  "(\<forall>g. main fl IsMultibyteByName IsUnicodeByName allMetadata = Inr g \<longrightarrow>
        ''tis620_bin'' \<notin> fst ` set (collationsUnsupportedByName g)
      \<and> list_all (\<lambda>r. ''tis620_bin'' \<notin> set (names_of r)) (gen_init g))
   \<and> main fl IsMultibyteByName IsUnicodeByName
        (filter (\<lambda>meta. Name meta \<noteq> ''tis620_bin'') allMetadata)
      = main fl IsMultibyteByName IsUnicodeByName allMetadata"
proof (intro conjI allI impI)
  fix g assume g: "main fl IsMultibyteByName IsUnicodeByName allMetadata = Inr g"
  then show "''tis620_bin'' \<notin> fst ` set (collationsUnsupportedByName g)"
    by (rule main_unsupported)
  show "list_all (\<lambda>r. ''tis620_bin'' \<notin> set (names_of r)) (gen_init g)"
    unfolding list_all_iff
  proof
    fix r assume "r \<in> set (gen_init g)"
    from main_registrations [OF g this] obtain meta :: collationMetadata where
      "names_of r = [Name meta]" "Name meta \<noteq> ''tis620_bin''" by blast
    then show "''tis620_bin'' \<notin> set (names_of r)" by simp
  qed
next
  show "main fl IsMultibyteByName IsUnicodeByName
        (filter (\<lambda>meta. Name meta \<noteq> ''tis620_bin'') allMetadata)
      = main fl IsMultibyteByName IsUnicodeByName allMetadata"
    by (rule main_filter)
qed

theorem main_emits_nothing_for_tis620_bin_witness:
  "\<exists>g. main example_flags (\<lambda>cs. False) (\<lambda>cs. False) example_metadata = Inr g
      \<and> ''tis620_bin'' \<in> set (map Name example_metadata)
      \<and> ''tis620_bin'' \<notin> fst ` set (collationsUnsupportedByName g)
      \<and> list_all (\<lambda>r. ''tis620_bin'' \<notin> set (names_of r)) (gen_init g)"
proof -
  from main_example obtain g where
    g: "main example_flags (\<lambda>cs. False) (\<lambda>cs. False) example_metadata = Inr g" by blast
  have "''tis620_bin'' \<in> set (map Name example_metadata)"
    by (simp add: example_metadata_def metadata_def)
  with g main_emits_nothing_for_tis620_bin
         [of example_flags "\<lambda>cs. False" "\<lambda>cs. False" example_metadata]
  show ?thesis by blast
qed

text \<open>
  C6 as stated fails: with \<^verbatim>\<open>tis620_bin\<close> among the metadata, the generator finishes and
  \<^verbatim>\<open>collationsUnsupportedByName\<close> holds the collation of the \<^verbatim>\<open>default\<close> case only.
\<close>

theorem tis620_bin_not_in_collationsUnsupportedByName_counterexample:
  "''tis620_bin'' \<in> set (map Name example_metadata)
   \<and> map_sum id collationsUnsupportedByName
        (main example_flags (\<lambda>cs. False) (\<lambda>cs. False) example_metadata)
      = Inr [(''latin1_german2_ci'', 31)]"
  by (simp add: main_example) (simp add: example_metadata_def metadata_def)
text \<open>What \<^verbatim>\<open>writeUca900\<close> registers, in terms of the collation's name alone.\<close>

lemma levelsForCompare_total:
  "HasSuffix name ''_ai_ci'' \<or> HasSuffix name ''_as_ci'' \<or> HasSuffix name ''_as_cs''
     \<or> HasSuffix name ''_as_cs_ks'' \<Longrightarrow> \<exists>n. levelsForCompare name = Inr n"
  by (auto simp: levelsForCompare_def)

lemma writeUca900_levels:
  assumes "writeUca900 b meta st = Inr st'" and "init st' = init st @ [r]"
  shows "\<exists>n. names_of r = [Name meta] \<and> levels_of r = [n] \<and> 1 \<le> n \<and> n \<le> 4
     \<and> (n = 1 \<longleftrightarrow> HasSuffix (Name meta) ''_ai_ci'')
     \<and> (n = 2 \<longleftrightarrow> HasSuffix (Name meta) ''_as_ci'')
     \<and> (n = 3 \<longleftrightarrow> HasSuffix (Name meta) ''_as_cs'')
     \<and> (n = 4 \<longleftrightarrow> HasSuffix (Name meta) ''_as_cs_ks'')"
proof -
  from writeUca900_Inr [OF assms(1)] obtain r' n where
    r': "init st' = init st @ [r']" "levelsForCompare (Name meta) = Inr n"
        "names_of r' = [Name meta]" "levels_of r' = [n]"
    by blast
  from r'(1) assms(2) have "r' = r" by simp
  with levelsForCompare_Inr [OF r'(2)] r'(3,4) show ?thesis by blast
qed

text \<open>
  C7. \<^verbatim>\<open>writeUca900\<close> gives a collation exactly one \<^verbatim>\<open>levelsForCompare\<close>, between 1 and 4,
  and the name's suffix alone decides it: 1 for \<^verbatim>\<open>_ai_ci\<close>, 2 for \<^verbatim>\<open>_as_ci\<close>, 3 for \<^verbatim>\<open>_as_cs\<close>,
  4 for \<^verbatim>\<open>_as_cs_ks\<close>. A name with none of these suffixes makes the generator panic. A
  collation of UCA version 900 whose weights parse and whose name has one of the suffixes
  is registered. So every \<^verbatim>\<open>Collation_utf8mb4_uca_0900\<close> in a generated file declares the
  number of levels of its name's suffix.
\<close>

theorem writeUca900_levelsForCompare:
  "(\<forall>st'. writeUca900 b meta st = Inr st' \<longrightarrow>
      (\<exists>r n. init st' = init st @ [r] \<and> levels_of r = [n] \<and> 1 \<le> n \<and> n \<le> 4
         \<and> (n = 1 \<longleftrightarrow> HasSuffix (Name meta) ''_ai_ci'')
         \<and> (n = 2 \<longleftrightarrow> HasSuffix (Name meta) ''_as_ci'')
         \<and> (n = 3 \<longleftrightarrow> HasSuffix (Name meta) ''_as_cs'')
         \<and> (n = 4 \<longleftrightarrow> HasSuffix (Name meta) ''_as_cs_ks'')))
   \<and> (\<not> HasSuffix (Name meta) ''_ai_ci'' \<and> \<not> HasSuffix (Name meta) ''_as_ci''
        \<and> \<not> HasSuffix (Name meta) ''_as_cs'' \<and> \<not> HasSuffix (Name meta) ''_as_cs_ks''
      \<longrightarrow> (\<exists>e. writeUca900 b meta st = Inl e))
   \<and> (UCAVersion meta = 900
        \<and> (\<exists>d. diffMaps (baseWeightsUca900 b) (Weights (snd (uca900_table meta))) = Inr d)
        \<and> (HasSuffix (Name meta) ''_ai_ci'' \<or> HasSuffix (Name meta) ''_as_ci''
           \<or> HasSuffix (Name meta) ''_as_cs'' \<or> HasSuffix (Name meta) ''_as_cs_ks'')
      \<longrightarrow> (\<exists>st'. writeUca900 b meta st = Inr st'))
   \<and> (\<forall>g r. main fl IsMultibyteByName IsUnicodeByName allMetadata = Inr g
          \<and> r \<in> set (gen_init g) \<and> reg_type r = ''Collation_utf8mb4_uca_0900'' \<longrightarrow>
        (\<exists>name n. names_of r = [name] \<and> levels_of r = [n] \<and> 1 \<le> n \<and> n \<le> 4
           \<and> (n = 1 \<longleftrightarrow> HasSuffix name ''_ai_ci'')
           \<and> (n = 2 \<longleftrightarrow> HasSuffix name ''_as_ci'')
           \<and> (n = 3 \<longleftrightarrow> HasSuffix name ''_as_cs'')
           \<and> (n = 4 \<longleftrightarrow> HasSuffix name ''_as_cs_ks'')))"
proof (intro conjI allI impI)
  fix st' assume w: "writeUca900 b meta st = Inr st'"
  from writeUca900_Inr [OF w] obtain r where r: "init st' = init st @ [r]" by blast
  from writeUca900_levels [OF w r] r
  show "\<exists>r n. init st' = init st @ [r] \<and> levels_of r = [n] \<and> 1 \<le> n \<and> n \<le> 4
         \<and> (n = 1 \<longleftrightarrow> HasSuffix (Name meta) ''_ai_ci'')
         \<and> (n = 2 \<longleftrightarrow> HasSuffix (Name meta) ''_as_ci'')
         \<and> (n = 3 \<longleftrightarrow> HasSuffix (Name meta) ''_as_cs'')
         \<and> (n = 4 \<longleftrightarrow> HasSuffix (Name meta) ''_as_cs_ks'')"
    by blast
next
  assume "\<not> HasSuffix (Name meta) ''_ai_ci'' \<and> \<not> HasSuffix (Name meta) ''_as_ci''
        \<and> \<not> HasSuffix (Name meta) ''_as_cs'' \<and> \<not> HasSuffix (Name meta) ''_as_cs_ks''"
  then have l: "levelsForCompare (Name meta) = Inl (UnknownLevelsForCompare (Name meta))"
    by (simp add: levelsForCompare_Inl)
  show "\<exists>e. writeUca900 b meta st = Inl e"
  proof (cases "writeUca900 b meta st")
    case (Inl e)
    then show ?thesis by blast
  next
    case (Inr st')
    from writeUca900_Inr [OF this] l show ?thesis by auto
  qed
next
  assume a: "UCAVersion meta = 900
        \<and> (\<exists>d. diffMaps (baseWeightsUca900 b) (Weights (snd (uca900_table meta))) = Inr d)
        \<and> (HasSuffix (Name meta) ''_ai_ci'' \<or> HasSuffix (Name meta) ''_as_ci''
           \<or> HasSuffix (Name meta) ''_as_cs'' \<or> HasSuffix (Name meta) ''_as_cs_ks'')"
  then obtain d where d: "diffMaps (baseWeightsUca900 b) (Weights (snd (uca900_table meta))) = Inr d"
    by blast
  from a levelsForCompare_total [of "Name meta"] obtain n where
    n: "levelsForCompare (Name meta) = Inr n" by blast
  from a have "UCAVersion meta = 900" by simp
  from writeUca900_total [OF this d n] show "\<exists>st'. writeUca900 b meta st = Inr st'" .
next
  fix g r
  assume a: "main fl IsMultibyteByName IsUnicodeByName allMetadata = Inr g
          \<and> r \<in> set (gen_init g) \<and> reg_type r = ''Collation_utf8mb4_uca_0900''"
  then have g: "main fl IsMultibyteByName IsUnicodeByName allMetadata = Inr g"
    and r: "r \<in> set (gen_init g)" and t: "reg_type r = ''Collation_utf8mb4_uca_0900''"
    by simp_all
  from main_registrations [OF g r] t obtain b' and meta' :: collationMetadata and st1 st1' where
    "writeUca900 b' meta' st1 = Inr st1'" "init st1' = init st1 @ [r]"
    by blast
  from writeUca900_levels [OF this]
  show "\<exists>name n. names_of r = [name] \<and> levels_of r = [n] \<and> 1 \<le> n \<and> n \<le> 4
           \<and> (n = 1 \<longleftrightarrow> HasSuffix name ''_ai_ci'')
           \<and> (n = 2 \<longleftrightarrow> HasSuffix name ''_as_ci'')
           \<and> (n = 3 \<longleftrightarrow> HasSuffix name ''_as_cs'')
           \<and> (n = 4 \<longleftrightarrow> HasSuffix name ''_as_cs_ks'')"
    by blast
qed

theorem writeUca900_levelsForCompare_witness:
  "(\<exists>st' r. writeUca900 \<lparr>baseWeightsUca400 = [], baseWeightsUca520 = [], baseWeightsUca900 = []\<rparr>
               (metadata ''utf8mb4_0900_as_cs'' ''utf8mb4'' ''uca_900'' 278 900)
               \<lparr>tables = [], init = [], seenTables = []\<rparr> = Inr st'
          \<and> init st' = [r] \<and> levels_of r = [3])
   \<and> (\<exists>e. writeUca900 \<lparr>baseWeightsUca400 = [], baseWeightsUca520 = [], baseWeightsUca900 = []\<rparr>
               (metadata ''utf8mb4_0900_bin'' ''utf8mb4'' ''uca_900'' 309 900)
               \<lparr>tables = [], init = [], seenTables = []\<rparr> = Inl e)
   \<and> (\<exists>g. main example_flags (\<lambda>cs. False) (\<lambda>cs. False) example_metadata = Inr g
          \<and> map levels_of (filter (\<lambda>r. reg_type r = ''Collation_utf8mb4_uca_0900'') (gen_init g))
              = [[1], [3]])"
proof -
  let ?b = "\<lparr>baseWeightsUca400 = [], baseWeightsUca520 = [], baseWeightsUca900 = []\<rparr>"
  let ?m = "metadata ''utf8mb4_0900_as_cs'' ''utf8mb4'' ''uca_900'' 278 900"
  let ?bad = "metadata ''utf8mb4_0900_bin'' ''utf8mb4'' ''uca_900'' 309 900"
  let ?st = "\<lparr>tables = [], init = [], seenTables = []\<rparr>"
  note T = writeUca900_levelsForCompare [of ?b ?m ?st example_flags "\<lambda>cs. False" "\<lambda>cs. False"
             example_metadata]
  have s: "HasSuffix (Name ?m) ''_as_cs''" by (simp add: HasSuffix_def metadata_def)
  have v: "UCAVersion ?m = 900" by (simp add: metadata_def)
  have d: "\<exists>d. diffMaps (baseWeightsUca900 ?b) (Weights (snd (uca900_table ?m))) = Inr d"
    by (simp add: uca900_table_def metadata_def diffMaps_def)
  from T v d s obtain st' where st': "writeUca900 ?b ?m ?st = Inr st'" by blast
  with T s obtain r n where "init st' = init ?st @ [r]" "levels_of r = [n]" "n = 3" by blast
  with st' have one: "\<exists>st' r. writeUca900 ?b ?m ?st = Inr st' \<and> init st' = [r] \<and> levels_of r = [3]"
    by auto
  have "\<not> HasSuffix (Name ?bad) ''_ai_ci'' \<and> \<not> HasSuffix (Name ?bad) ''_as_ci''
        \<and> \<not> HasSuffix (Name ?bad) ''_as_cs'' \<and> \<not> HasSuffix (Name ?bad) ''_as_cs_ks''"
    by (simp add: HasSuffix_def metadata_def)
  with writeUca900_levelsForCompare [of ?b ?bad ?st]
  have two: "\<exists>e. writeUca900 ?b ?bad ?st = Inl e" by blast
  have three: "\<exists>g. main example_flags (\<lambda>cs. False) (\<lambda>cs. False) example_metadata = Inr g
          \<and> map levels_of (filter (\<lambda>r. reg_type r = ''Collation_utf8mb4_uca_0900'') (gen_init g))
              = [[1], [3]]"
    by (simp add: main_example levels_of_def)
  from one two three show ?thesis by blast
qed
lemma writeUcaLegacy_table:
  assumes "writeUcaLegacy b meta st = Inr st'" and "init st' = init st @ [r]"
  shows "reg_type r = ''Collation_uca_legacy''
     \<and> ((UCAVersion meta = 400 \<and> weights_of r = [''uca.WeightTable_uca400'']
           \<and> maxCodepoints_of r = [0xFFFF])
        \<or> (UCAVersion meta = 520 \<and> weights_of r = [''uca.WeightTable_uca520'']
           \<and> maxCodepoints_of r = [0x10FFFF]))"
proof -
  from writeUcaLegacy_Inr [OF assms(1)] obtain r' where
    r': "init st' = init st @ [r']" "reg_type r' = ''Collation_uca_legacy''"
        "UCAVersion meta = 400 \<or> UCAVersion meta = 520"
        "weights_of r' = [''uca.WeightTable_uca'' @ fmt_d (UCAVersion meta)]"
        "maxCodepoints_of r' = [if UCAVersion meta = 400 then 0xFFFF else 0x10FFFF]"
    by blast
  from r'(1) assms(2) have e: "r' = r" by simp
  from r'(3) show ?thesis
  proof
    assume "UCAVersion meta = 400"
    with r'(2,4,5) e show ?thesis by (simp add: fmt_d_400)
  next
    assume "UCAVersion meta = 520"
    with r'(2,4,5) e show ?thesis by (simp add: fmt_d_520)
  qed
qed

text \<open>
  C8. \<^verbatim>\<open>writeUcaLegacy\<close> registers a collation with the weight table named after its UCA
  version alone, \<^verbatim>\<open>uca.WeightTable_uca400\<close> with \<^verbatim>\<open>maxCodepoint\<close> \<^verbatim>\<open>0xFFFF\<close> or
  \<^verbatim>\<open>uca.WeightTable_uca520\<close> with \<^verbatim>\<open>0x10FFFF\<close>. Any other version makes the generator panic. A
  collation of version 400 or 520 whose weights parse is registered. So every
  \<^verbatim>\<open>Collation_uca_legacy\<close> in a generated file has one of the two tables with its maximum
  codepoint.
\<close>

theorem writeUcaLegacy_weight_table:
  "(\<forall>st'. writeUcaLegacy b meta st = Inr st' \<longrightarrow>
      (\<exists>r. init st' = init st @ [r] \<and> reg_type r = ''Collation_uca_legacy''
         \<and> ((UCAVersion meta = 400 \<and> weights_of r = [''uca.WeightTable_uca400'']
               \<and> maxCodepoints_of r = [0xFFFF])
            \<or> (UCAVersion meta = 520 \<and> weights_of r = [''uca.WeightTable_uca520'']
               \<and> maxCodepoints_of r = [0x10FFFF]))))
   \<and> (UCAVersion meta \<noteq> 400 \<and> UCAVersion meta \<noteq> 520
      \<longrightarrow> (\<exists>e. writeUcaLegacy b meta st = Inl e))
   \<and> ((UCAVersion meta = 400 \<or> UCAVersion meta = 520)
        \<and> (\<exists>d. diffMaps (if UCAVersion meta = 400 then baseWeightsUca400 b
                         else baseWeightsUca520 b) (Weights meta) = Inr d)
      \<longrightarrow> (\<exists>st'. writeUcaLegacy b meta st = Inr st'))
   \<and> (\<forall>g r. main fl IsMultibyteByName IsUnicodeByName allMetadata = Inr g
          \<and> r \<in> set (gen_init g) \<and> reg_type r = ''Collation_uca_legacy'' \<longrightarrow>
        (weights_of r = [''uca.WeightTable_uca400''] \<and> maxCodepoints_of r = [0xFFFF])
        \<or> (weights_of r = [''uca.WeightTable_uca520''] \<and> maxCodepoints_of r = [0x10FFFF]))"
proof (intro conjI allI impI)
  fix st' assume w: "writeUcaLegacy b meta st = Inr st'"
  from writeUcaLegacy_Inr [OF w] obtain r where r: "init st' = init st @ [r]" by blast
  from writeUcaLegacy_table [OF w r] r
  show "\<exists>r. init st' = init st @ [r] \<and> reg_type r = ''Collation_uca_legacy''
         \<and> ((UCAVersion meta = 400 \<and> weights_of r = [''uca.WeightTable_uca400'']
               \<and> maxCodepoints_of r = [0xFFFF])
            \<or> (UCAVersion meta = 520 \<and> weights_of r = [''uca.WeightTable_uca520'']
               \<and> maxCodepoints_of r = [0x10FFFF]))"
    by blast
next
  assume "UCAVersion meta \<noteq> 400 \<and> UCAVersion meta \<noteq> 520"
  then show "\<exists>e. writeUcaLegacy b meta st = Inl e"
    by (intro writeUcaLegacy_invalid) simp_all
next
  assume a: "(UCAVersion meta = 400 \<or> UCAVersion meta = 520)
        \<and> (\<exists>d. diffMaps (if UCAVersion meta = 400 then baseWeightsUca400 b
                         else baseWeightsUca520 b) (Weights meta) = Inr d)"
  then obtain d where d: "diffMaps (if UCAVersion meta = 400 then baseWeightsUca400 b
                         else baseWeightsUca520 b) (Weights meta) = Inr d" by blast
  from a have "UCAVersion meta = 400 \<or> UCAVersion meta = 520" by simp
  from writeUcaLegacy_total [OF this d] show "\<exists>st'. writeUcaLegacy b meta st = Inr st'" .
next
  fix g r
  assume a: "main fl IsMultibyteByName IsUnicodeByName allMetadata = Inr g
          \<and> r \<in> set (gen_init g) \<and> reg_type r = ''Collation_uca_legacy''"
  then have g: "main fl IsMultibyteByName IsUnicodeByName allMetadata = Inr g"
    and r: "r \<in> set (gen_init g)" and t: "reg_type r = ''Collation_uca_legacy''"
    by simp_all
  from main_registrations [OF g r] t obtain b' and meta' :: collationMetadata and st1 st1' where
    "writeUcaLegacy b' meta' st1 = Inr st1'" "init st1' = init st1 @ [r]"
    by blast
  from writeUcaLegacy_table [OF this]
  show "(weights_of r = [''uca.WeightTable_uca400''] \<and> maxCodepoints_of r = [0xFFFF])
        \<or> (weights_of r = [''uca.WeightTable_uca520''] \<and> maxCodepoints_of r = [0x10FFFF])"
    by blast
qed

theorem writeUcaLegacy_weight_table_witness:
  "(\<exists>st' r. writeUcaLegacy \<lparr>baseWeightsUca400 = [], baseWeightsUca520 = [], baseWeightsUca900 = []\<rparr>
               (metadata ''utf8mb4_unicode_520_ci'' ''utf8mb4'' ''any_uca'' 246 520)
               \<lparr>tables = [], init = [], seenTables = []\<rparr> = Inr st'
          \<and> init st' = [r] \<and> weights_of r = [''uca.WeightTable_uca520'']
          \<and> maxCodepoints_of r = [0x10FFFF])
   \<and> (\<exists>e. writeUcaLegacy \<lparr>baseWeightsUca400 = [], baseWeightsUca520 = [], baseWeightsUca900 = []\<rparr>
               (metadata ''utf8mb4_unicode_ci'' ''utf8mb4'' ''any_uca'' 224 900)
               \<lparr>tables = [], init = [], seenTables = []\<rparr> = Inl e)
   \<and> (\<exists>g. main example_flags (\<lambda>cs. False) (\<lambda>cs. False) example_metadata = Inr g
          \<and> map weights_of (filter (\<lambda>r. reg_type r = ''Collation_uca_legacy'') (gen_init g))
              = [[''uca.WeightTable_uca400''], [''uca.WeightTable_uca520'']]
          \<and> map maxCodepoints_of (filter (\<lambda>r. reg_type r = ''Collation_uca_legacy'') (gen_init g))
              = [[0xFFFF], [0x10FFFF]])"
proof -
  let ?b = "\<lparr>baseWeightsUca400 = [], baseWeightsUca520 = [], baseWeightsUca900 = []\<rparr>"
  let ?m = "metadata ''utf8mb4_unicode_520_ci'' ''utf8mb4'' ''any_uca'' 246 520"
  let ?bad = "metadata ''utf8mb4_unicode_ci'' ''utf8mb4'' ''any_uca'' 224 900"
  let ?st = "\<lparr>tables = [], init = [], seenTables = []\<rparr>"
  note T = writeUcaLegacy_weight_table [of ?b ?m ?st example_flags "\<lambda>cs. False" "\<lambda>cs. False"
             example_metadata]
  have v: "UCAVersion ?m = 520" by (simp add: metadata_def)
  have d: "\<exists>d. diffMaps (if UCAVersion ?m = 400 then baseWeightsUca400 ?b
                         else baseWeightsUca520 ?b) (Weights ?m) = Inr d"
    by (simp add: metadata_def diffMaps_def)
  from T v d obtain st' where st': "writeUcaLegacy ?b ?m ?st = Inr st'" by blast
  with T v obtain r where "init st' = init ?st @ [r]"
    "weights_of r = [''uca.WeightTable_uca520'']" "maxCodepoints_of r = [0x10FFFF]"
    by auto
  with st' have one: "\<exists>st' r. writeUcaLegacy ?b ?m ?st = Inr st' \<and> init st' = [r]
          \<and> weights_of r = [''uca.WeightTable_uca520''] \<and> maxCodepoints_of r = [0x10FFFF]"
    by auto
  have "UCAVersion ?bad \<noteq> 400 \<and> UCAVersion ?bad \<noteq> 520" by (simp add: metadata_def)
  with writeUcaLegacy_weight_table [of ?b ?bad ?st]
  have two: "\<exists>e. writeUcaLegacy ?b ?bad ?st = Inl e" by blast
  have three: "\<exists>g. main example_flags (\<lambda>cs. False) (\<lambda>cs. False) example_metadata = Inr g
          \<and> map weights_of (filter (\<lambda>r. reg_type r = ''Collation_uca_legacy'') (gen_init g))
              = [[''uca.WeightTable_uca400''], [''uca.WeightTable_uca520'']]
          \<and> map maxCodepoints_of (filter (\<lambda>r. reg_type r = ''Collation_uca_legacy'') (gen_init g))
              = [[0xFFFF], [0x10FFFF]]"
    by (simp add: main_example weights_of_def maxCodepoints_of_def)
  from one two three show ?thesis by blast
qed
lemma writeContractions_Weights [simp]:
  "writeContractions (meta\<lparr>Weights := w\<rparr>) st = writeContractions meta st"
  by (simp add: writeContractions_def)

lemma writeContractions_Weights_Reorder [simp]:
  "writeContractions (meta\<lparr>Weights := w, Reorder := ro\<rparr>) st = writeContractions meta st"
  by (simp add: writeContractions_def)

lemma writeReorders_Weights [simp]:
  "writeReorders (meta\<lparr>Weights := w\<rparr>) st = writeReorders meta st"
  by (simp add: writeReorders_def)

lemma writeReorders_none [simp]:
  "writeReorders (meta\<lparr>Weights := w, Reorder := []\<rparr>) st = ([], st)"
  by (simp add: writeReorders_def)

lemma levelsForCompare_zh: "levelsForCompare ''utf8mb4_zh_0900_as_cs'' = Inr 3"
  by (simp add: levelsForCompare_def HasSuffix_def)

lemma levelsForCompare_ja: "levelsForCompare ''utf8mb4_ja_0900_as_cs'' = Inr 3"
  by (simp add: levelsForCompare_def HasSuffix_def)

lemma levelsForCompare_ja_ks: "levelsForCompare ''utf8mb4_ja_0900_as_cs_ks'' = Inr 4"
  by (simp add: levelsForCompare_def HasSuffix_def)

text \<open>The registration of the Chinese collation, whatever its weights and reorder ranges.\<close>

lemma writeUca900_zh:
  assumes "writeUca900 b meta st = Inr st'" and "init st' = init st @ [r]"
    and "Name meta = ''utf8mb4_zh_0900_as_cs''"
  shows "weights_of r = [''uca.WeightTable_uca900_zh''] \<and> tailorings_of r = []
     \<and> reorders_of r = [] \<and> tables st' = tables (snd (writeContractions meta st))"
proof -
  have t: "uca900_table meta = (''uca.WeightTable_uca900_zh'', meta\<lparr>Weights := [], Reorder := []\<rparr>)"
    using assms(3) by (simp add: uca900_table_def)
  from writeUca900_Inr [OF assms(1)] obtain r' tp st1 where
    r': "init st' = init st @ [r']" "UCAVersion meta = 900"
        "weights_of r' = [fst (uca900_table meta)]"
        "writeWeightPatches b (snd (uca900_table meta)) st = Inr (tp, st1)"
        "tailorings_of r' = opt_field id tp"
        "reorders_of r' =
               opt_field id (fst (writeReorders (snd (uca900_table meta))
                                    (snd (writeContractions (snd (uca900_table meta)) st1))))"
        "tables st' =
               tables (snd (writeReorders (snd (uca900_table meta))
                              (snd (writeContractions (snd (uca900_table meta)) st1))))"
    by blast
  from r'(1) assms(2) have e: "r' = r" by simp
  have "writeWeightPatches b (meta\<lparr>Weights := [], Reorder := []\<rparr>) st = Inr ([], st)"
    using r'(2) by (intro writeWeightPatches_no_weights) simp_all
  with r'(4) t have p: "tp = []" "st1 = st" by simp_all
  from r'(3,5,6,7) show ?thesis unfolding e t p by (simp add: opt_field_def)
qed

text \<open>The registration of a Japanese collation, whatever its weights.\<close>

lemma writeUca900_ja:
  assumes "writeUca900 b meta st = Inr st'" and "init st' = init st @ [r]"
    and "Name meta = ''utf8mb4_ja_0900_as_cs'' \<or> Name meta = ''utf8mb4_ja_0900_as_cs_ks''"
  shows "weights_of r = [''uca.WeightTable_uca900_ja''] \<and> tailorings_of r = []
     \<and> tables st' = tables (snd (writeReorders meta (snd (writeContractions meta st))))"
proof -
  have t: "uca900_table meta = (''uca.WeightTable_uca900_ja'', meta\<lparr>Weights := []\<rparr>)"
    using assms(3) by (auto simp: uca900_table_def)
  from writeUca900_Inr [OF assms(1)] obtain r' tp st1 where
    r': "init st' = init st @ [r']" "UCAVersion meta = 900"
        "weights_of r' = [fst (uca900_table meta)]"
        "writeWeightPatches b (snd (uca900_table meta)) st = Inr (tp, st1)"
        "tailorings_of r' = opt_field id tp"
        "tables st' =
               tables (snd (writeReorders (snd (uca900_table meta))
                              (snd (writeContractions (snd (uca900_table meta)) st1))))"
    by blast
  from r'(1) assms(2) have e: "r' = r" by simp
  have "writeWeightPatches b (meta\<lparr>Weights := []\<rparr>) st = Inr ([], st)"
    using r'(2) by (intro writeWeightPatches_no_weights) simp_all
  with r'(4) t have p: "tp = []" "st1 = st" by simp_all
  from r'(3,5,6) show ?thesis unfolding e t p by (simp add: opt_field_def)
qed

lemma writeUca900_zh_ja_total:
  assumes "UCAVersion meta = 900"
    and "Name meta = ''utf8mb4_zh_0900_as_cs'' \<or> Name meta = ''utf8mb4_ja_0900_as_cs''
          \<or> Name meta = ''utf8mb4_ja_0900_as_cs_ks''"
  shows "\<exists>st' r. writeUca900 b meta st = Inr st' \<and> init st' = init st @ [r]"
proof -
  from assms(2) have "Weights (snd (uca900_table meta)) = []"
    by (auto simp: uca900_table_def)
  then have d: "diffMaps (baseWeightsUca900 b) (Weights (snd (uca900_table meta))) = Inr []"
    by (simp add: diffMaps_def)
  from assms(2) obtain n where n: "levelsForCompare (Name meta) = Inr n"
    using levelsForCompare_zh levelsForCompare_ja levelsForCompare_ja_ks by auto
  from writeUca900_total [OF assms(1) d n] obtain st' where
    st': "writeUca900 b meta st = Inr st'" by blast
  from writeUca900_Inr [OF st'] st' show ?thesis by blast
qed

text \<open>
  C10. For \<^verbatim>\<open>utf8mb4_zh_0900_as_cs\<close> the generator registers \<^verbatim>\<open>uca.WeightTable_uca900_zh\<close>
  with no \<^verbatim>\<open>tailoring\<close> and no \<^verbatim>\<open>reorder\<close> field, and writes no table but the contractions,
  whatever weights and reorder ranges the metadata holds. For \<^verbatim>\<open>utf8mb4_ja_0900_as_cs\<close>
  and \<^verbatim>\<open>utf8mb4_ja_0900_as_cs_ks\<close> it registers \<^verbatim>\<open>uca.WeightTable_uca900_ja\<close> with no
  \<^verbatim>\<open>tailoring\<close> field, and writes only the contractions and the reorder ranges. The same
  holds of every \<^verbatim>\<open>Collation_utf8mb4_uca_0900\<close> of these names in a generated file.
\<close>

theorem writeUca900_zh_ja_discard:
  "(UCAVersion meta = 900 \<and> Name meta = ''utf8mb4_zh_0900_as_cs'' \<longrightarrow>
      (\<exists>st' r. writeUca900 b meta st = Inr st' \<and> init st' = init st @ [r]
         \<and> weights_of r = [''uca.WeightTable_uca900_zh'']
         \<and> tailorings_of r = [] \<and> reorders_of r = []
         \<and> tables st' = tables (snd (writeContractions meta st))))
   \<and> (UCAVersion meta = 900
        \<and> (Name meta = ''utf8mb4_ja_0900_as_cs'' \<or> Name meta = ''utf8mb4_ja_0900_as_cs_ks'') \<longrightarrow>
      (\<exists>st' r. writeUca900 b meta st = Inr st' \<and> init st' = init st @ [r]
         \<and> weights_of r = [''uca.WeightTable_uca900_ja'']
         \<and> tailorings_of r = []
         \<and> tables st' = tables (snd (writeReorders meta (snd (writeContractions meta st))))))
   \<and> (\<forall>g r. main fl IsMultibyteByName IsUnicodeByName allMetadata = Inr g
          \<and> r \<in> set (gen_init g) \<and> reg_type r = ''Collation_utf8mb4_uca_0900''
          \<and> names_of r = [''utf8mb4_zh_0900_as_cs''] \<longrightarrow>
        weights_of r = [''uca.WeightTable_uca900_zh'']
        \<and> tailorings_of r = [] \<and> reorders_of r = [])
   \<and> (\<forall>g r. main fl IsMultibyteByName IsUnicodeByName allMetadata = Inr g
          \<and> r \<in> set (gen_init g) \<and> reg_type r = ''Collation_utf8mb4_uca_0900''
          \<and> (names_of r = [''utf8mb4_ja_0900_as_cs'']
             \<or> names_of r = [''utf8mb4_ja_0900_as_cs_ks'']) \<longrightarrow>
        weights_of r = [''uca.WeightTable_uca900_ja''] \<and> tailorings_of r = [])"
proof (intro conjI allI impI)
  assume a: "UCAVersion meta = 900 \<and> Name meta = ''utf8mb4_zh_0900_as_cs''"
  then have "\<exists>st' r. writeUca900 b meta st = Inr st' \<and> init st' = init st @ [r]"
    by (intro writeUca900_zh_ja_total) simp_all
  then obtain st' r where w: "writeUca900 b meta st = Inr st'" "init st' = init st @ [r]"
    by blast
  from writeUca900_zh [OF w] a w
  show "\<exists>st' r. writeUca900 b meta st = Inr st' \<and> init st' = init st @ [r]
         \<and> weights_of r = [''uca.WeightTable_uca900_zh'']
         \<and> tailorings_of r = [] \<and> reorders_of r = []
         \<and> tables st' = tables (snd (writeContractions meta st))"
    by blast
next
  assume a: "UCAVersion meta = 900
        \<and> (Name meta = ''utf8mb4_ja_0900_as_cs'' \<or> Name meta = ''utf8mb4_ja_0900_as_cs_ks'')"
  then have "\<exists>st' r. writeUca900 b meta st = Inr st' \<and> init st' = init st @ [r]"
    by (intro writeUca900_zh_ja_total) auto
  then obtain st' r where w: "writeUca900 b meta st = Inr st'" "init st' = init st @ [r]"
    by blast
  from a have "Name meta = ''utf8mb4_ja_0900_as_cs'' \<or> Name meta = ''utf8mb4_ja_0900_as_cs_ks''"
    by simp
  from writeUca900_ja [OF w this] w
  show "\<exists>st' r. writeUca900 b meta st = Inr st' \<and> init st' = init st @ [r]
         \<and> weights_of r = [''uca.WeightTable_uca900_ja'']
         \<and> tailorings_of r = []
         \<and> tables st' = tables (snd (writeReorders meta (snd (writeContractions meta st))))"
    by blast
next
  fix g r
  assume a: "main fl IsMultibyteByName IsUnicodeByName allMetadata = Inr g
          \<and> r \<in> set (gen_init g) \<and> reg_type r = ''Collation_utf8mb4_uca_0900''
          \<and> names_of r = [''utf8mb4_zh_0900_as_cs'']"
  then have g: "main fl IsMultibyteByName IsUnicodeByName allMetadata = Inr g"
    and r: "r \<in> set (gen_init g)" and t: "reg_type r = ''Collation_utf8mb4_uca_0900''"
    and n: "names_of r = [''utf8mb4_zh_0900_as_cs'']"
    by simp_all
  from main_registrations [OF g r] t obtain b' and meta' :: collationMetadata and st1 st1' where
    w: "writeUca900 b' meta' st1 = Inr st1'" "init st1' = init st1 @ [r]"
    and "names_of r = [Name meta']"
    by blast
  with n have "Name meta' = ''utf8mb4_zh_0900_as_cs''" by simp
  from writeUca900_zh [OF w this]
  show "weights_of r = [''uca.WeightTable_uca900_zh'']"
    and "tailorings_of r = []" and "reorders_of r = []"
    by blast+
next
  fix g r
  assume a: "main fl IsMultibyteByName IsUnicodeByName allMetadata = Inr g
          \<and> r \<in> set (gen_init g) \<and> reg_type r = ''Collation_utf8mb4_uca_0900''
          \<and> (names_of r = [''utf8mb4_ja_0900_as_cs'']
             \<or> names_of r = [''utf8mb4_ja_0900_as_cs_ks''])"
  then have g: "main fl IsMultibyteByName IsUnicodeByName allMetadata = Inr g"
    and r: "r \<in> set (gen_init g)" and t: "reg_type r = ''Collation_utf8mb4_uca_0900''"
    and n: "names_of r = [''utf8mb4_ja_0900_as_cs'']
             \<or> names_of r = [''utf8mb4_ja_0900_as_cs_ks'']"
    by simp_all
  from main_registrations [OF g r] t obtain b' and meta' :: collationMetadata and st1 st1' where
    w: "writeUca900 b' meta' st1 = Inr st1'" "init st1' = init st1 @ [r]"
    and "names_of r = [Name meta']"
    by blast
  with n have "Name meta' = ''utf8mb4_ja_0900_as_cs'' \<or> Name meta' = ''utf8mb4_ja_0900_as_cs_ks''"
    by auto
  from writeUca900_ja [OF w this]
  show "weights_of r = [''uca.WeightTable_uca900_ja'']" and "tailorings_of r = []"
    by blast+
qed

theorem writeUca900_zh_ja_discard_witness:
  "(\<exists>st' r. writeUca900 \<lparr>baseWeightsUca400 = [], baseWeightsUca520 = [], baseWeightsUca900 = []\<rparr>
               ((metadata ''utf8mb4_zh_0900_as_cs'' ''utf8mb4'' ''uca_900'' 308 900)
                  \<lparr>Weights := [(''U+4E00'', [0x1C47, 0x0020, 0x0002])],
                   Reorder := [(0x1C47, 0x54A3, 0x1C47, 0x54A3)]\<rparr>)
               \<lparr>tables = [], init = [], seenTables = []\<rparr> = Inr st'
          \<and> init st' = [r] \<and> weights_of r = [''uca.WeightTable_uca900_zh'']
          \<and> tailorings_of r = [] \<and> reorders_of r = [] \<and> tables st' = [])
   \<and> (\<exists>st' r. writeUca900 \<lparr>baseWeightsUca400 = [], baseWeightsUca520 = [], baseWeightsUca900 = []\<rparr>
               ((metadata ''utf8mb4_ja_0900_as_cs_ks'' ''utf8mb4'' ''uca_900'' 304 900)
                  \<lparr>Weights := [(''U+3042'', [0x3D5A, 0x0020, 0x000E])],
                   Reorder := [(0x1C47, 0x54A3, 0x1C47, 0x54A3)]\<rparr>)
               \<lparr>tables = [], init = [], seenTables = []\<rparr> = Inr st'
          \<and> init st' = [r] \<and> weights_of r = [''uca.WeightTable_uca900_ja'']
          \<and> tailorings_of r = []
          \<and> reorders_of r = [''reorder_utf8mb4_ja_0900_as_cs_ks''])
   \<and> (\<exists>g. main example_flags (\<lambda>cs. False) (\<lambda>cs. False) example_metadata = Inr g
          \<and> map tailorings_of (filter (\<lambda>r. names_of r = [''utf8mb4_zh_0900_as_cs'']) (gen_init g))
              = [[]]
          \<and> map reorders_of (filter (\<lambda>r. names_of r = [''utf8mb4_zh_0900_as_cs'']) (gen_init g))
              = [[]])"
proof -
  let ?b = "\<lparr>baseWeightsUca400 = [], baseWeightsUca520 = [], baseWeightsUca900 = []\<rparr>"
  let ?zh = "(metadata ''utf8mb4_zh_0900_as_cs'' ''utf8mb4'' ''uca_900'' 308 900)
                  \<lparr>Weights := [(''U+4E00'', [0x1C47, 0x0020, 0x0002])],
                   Reorder := [(0x1C47, 0x54A3, 0x1C47, 0x54A3)]\<rparr>"
  let ?ja = "(metadata ''utf8mb4_ja_0900_as_cs_ks'' ''utf8mb4'' ''uca_900'' 304 900)
                  \<lparr>Weights := [(''U+3042'', [0x3D5A, 0x0020, 0x000E])],
                   Reorder := [(0x1C47, 0x54A3, 0x1C47, 0x54A3)]\<rparr>"
  let ?st = "\<lparr>tables = [], init = [], seenTables = []\<rparr>"
  have zh: "UCAVersion ?zh = 900 \<and> Name ?zh = ''utf8mb4_zh_0900_as_cs''"
    by (simp add: metadata_def)
  have tz: "tables (snd (writeContractions ?zh ?st)) = []"
    by (simp add: writeContractions_def metadata_def)
  from writeUca900_zh_ja_discard [of ?zh ?b ?st] zh tz
  have one: "\<exists>st' r. writeUca900 ?b ?zh ?st = Inr st'
          \<and> init st' = [r] \<and> weights_of r = [''uca.WeightTable_uca900_zh'']
          \<and> tailorings_of r = [] \<and> reorders_of r = [] \<and> tables st' = []"
    by auto
  have ja: "UCAVersion ?ja = 900
        \<and> (Name ?ja = ''utf8mb4_ja_0900_as_cs'' \<or> Name ?ja = ''utf8mb4_ja_0900_as_cs_ks'')"
    by (simp add: metadata_def)
  have wj: "writeUca900 ?b ?ja ?st =
      Inr \<lparr>tables = [ReorderTable ''reorder_utf8mb4_ja_0900_as_cs_ks''
                       [(0x1C47, 0x54A3, 0x1C47, 0x54A3)]],
           init = [\<lparr>reg_type = ''Collation_utf8mb4_uca_0900'',
                    reg_fields = [F_name ''utf8mb4_ja_0900_as_cs_ks'', F_id 304,
                                  F_levelsForCompare 4, F_weights ''uca.WeightTable_uca900_ja'',
                                  F_reorder ''reorder_utf8mb4_ja_0900_as_cs_ks''],
                    reg_default = False\<rparr>],
           seenTables = [(V_reorders [(0x1C47, 0x54A3, 0x1C47, 0x54A3)],
                          ''reorder_utf8mb4_ja_0900_as_cs_ks'')]\<rparr>"
    by (simp add: eval_defs Let_def)
  from writeUca900_zh_ja_discard [of ?ja ?b ?st] ja obtain st' r where
    j: "writeUca900 ?b ?ja ?st = Inr st'" "init st' = init ?st @ [r]"
       "weights_of r = [''uca.WeightTable_uca900_ja'']" "tailorings_of r = []"
    by blast
  from j(1,2) wj have "reorders_of r = [''reorder_utf8mb4_ja_0900_as_cs_ks'']"
    by (auto simp: reorders_of_def)
  with j have two: "\<exists>st' r. writeUca900 ?b ?ja ?st = Inr st'
          \<and> init st' = [r] \<and> weights_of r = [''uca.WeightTable_uca900_ja'']
          \<and> tailorings_of r = []
          \<and> reorders_of r = [''reorder_utf8mb4_ja_0900_as_cs_ks'']"
    by auto
  have three: "\<exists>g. main example_flags (\<lambda>cs. False) (\<lambda>cs. False) example_metadata = Inr g
          \<and> map tailorings_of (filter (\<lambda>r. names_of r = [''utf8mb4_zh_0900_as_cs'']) (gen_init g))
              = [[]]
          \<and> map reorders_of (filter (\<lambda>r. names_of r = [''utf8mb4_zh_0900_as_cs'']) (gen_init g))
              = [[]]"
    by (simp add: main_example names_of_def tailorings_of_def reorders_of_def)
  from one two three show ?thesis by blast
qed
end
